theory Spec2Isabelle
  imports Main
begin

section \<open>The mapban lobby server: data model\<close>

text \<open>
  The server (\<^verbatim>\<open>src/unnamed/part_001\<close>) keeps a process-wide map \<^verbatim>\<open>lobbies\<close> from
  lobby id to lobby object and reacts to socket events. Every handler is modelled as a
  function from the server state to an outcome: the new state, the events emitted (in
  emission order) and whether the handler ended by a JavaScript \<^verbatim>\<open>TypeError\<close>.

  JavaScript \<^verbatim>\<open>Set<string>\<close> values are duplicate-free lists in insertion order, the
  ordered \<^verbatim>\<open>Map<string, string>\<close> of team names is an association list in insertion
  order, and the \<^verbatim>\<open>lobbies\<close> map is a partial function. Values that can be
  \<^verbatim>\<open>undefined\<close> at run time are options.
\<close>

subsection \<open>Containers of the source language\<close>

definition set_add :: "'a \<Rightarrow> 'a list \<Rightarrow> 'a list" where
  \<comment> \<open>\<^verbatim>\<open>Set.prototype.add\<close>: a new element goes to the end, a present one changes nothing\<close>
  "set_add x xs = (if x \<in> set xs then xs else xs @ [x])"

definition set_delete :: "'a \<Rightarrow> 'a list \<Rightarrow> 'a list" where
  \<comment> \<open>\<^verbatim>\<open>Set.prototype.delete\<close>\<close>
  "set_delete x xs = filter (\<lambda>y. y \<noteq> x) xs"

fun map_set :: "'k \<Rightarrow> 'v \<Rightarrow> ('k \<times> 'v) list \<Rightarrow> ('k \<times> 'v) list" where
  \<comment> \<open>\<^verbatim>\<open>Map.prototype.set\<close>: a present key keeps its position, a new key goes to the end\<close>
  "map_set k v [] = [(k, v)]"
| "map_set k v ((k', v') # ps) = (if k' = k then (k, v) # ps else (k', v') # map_set k v ps)"

definition map_delete :: "'k \<Rightarrow> ('k \<times> 'v) list \<Rightarrow> ('k \<times> 'v) list" where
  \<comment> \<open>\<^verbatim>\<open>Map.prototype.delete\<close>\<close>
  "map_delete k ps = filter (\<lambda>p. fst p \<noteq> k) ps"

definition js_index :: "'a list \<Rightarrow> int \<Rightarrow> 'a option" where
  \<comment> \<open>\<^verbatim>\<open>xs[i]\<close> on an array: \<^verbatim>\<open>undefined\<close> out of range\<close>
  "js_index xs i = (if 0 \<le> i \<and> i < int (length xs) then Some (xs ! nat i) else None)"

subsection \<open>Numbers of the source language\<close>

text \<open>
  A number of the source language is a double. The numbers of a lobby (map pool size,
  step, round number) are kept here as integers, and the result of an addition or a
  subtraction is rounded to the nearest double, ties to the even significand, as the
  source language rounds it: every integer below \<open>2 ^ 53\<close> in magnitude is a double and
  the result is exact there; from \<open>2 ^ 53\<close> on only the multiples of the unit in the last
  place are doubles, so that \<^verbatim>\<open>x++\<close> leaves \<open>2 ^ 53\<close> as it is. (The sums and
  differences of the handlers stay far below the largest double.)
\<close>

function bitlen :: "int \<Rightarrow> nat" where
  \<comment> \<open>the number of binary digits of a positive integer\<close>
  "bitlen n = (if n \<le> 0 then 0 else Suc (bitlen (n div 2)))"
  by pat_completeness auto
termination
  by (relation "measure nat") auto

declare bitlen.simps [simp del]

definition js_number :: "int \<Rightarrow> int" where
  \<comment> \<open>the double nearest to an integer: 53 binary digits are kept, a tie goes to the
      even significand\<close>
  "js_number n =
     (if \<bar>n\<bar> < 2 ^ 53 then n
      else (let u = 2 ^ (bitlen \<bar>n\<bar> - 53);
                q = \<bar>n\<bar> div u;
                r = \<bar>n\<bar> mod u;
                q' = (if 2 * r < u \<or> (2 * r = u \<and> even q) then q else q + 1)
            in sgn n * (q' * u)))"

definition js_inc :: "int \<Rightarrow> int" where
  \<comment> \<open>the value that \<^verbatim>\<open>x++\<close> stores\<close>
  "js_inc x = js_number (x + 1)"

subsection \<open>Lobby entities\<close>

text \<open>
  An entry of \<^verbatim>\<open>pickedMaps\<close> is \<^verbatim>\<open>{map, teamName, side, sideTeamName}\<close> in an FPS lobby
  and \<^verbatim>\<open>{map, teamName, roundNumber}\<close> in a Splatoon lobby; an entry of
  \<^verbatim>\<open>bannedMaps\<close> is \<^verbatim>\<open>{map, teamName}\<close> or \<^verbatim>\<open>{map, teamName, roundNumber}\<close>.
\<close>

datatype picked =
    FpsPick (pmap: string) (pteamName: string) (pside: string) (psideTeamName: string)
  | SplPick (pmap: string) (pteamName: string) (pround: int)

datatype banned =
    FpsBan (bmap: string) (bteamName: string)
  | SplBan (bmap: string) (bteamName: string) (bround: int)

fun ban_roundNumber :: "banned \<Rightarrow> int option" where
  \<comment> \<open>\<^verbatim>\<open>ban.roundNumber\<close>, \<^verbatim>\<open>undefined\<close> on an FPS entry\<close>
  "ban_roundNumber (FpsBan m t) = None"
| "ban_roundNumber (SplBan m t r) = Some r"

record mode_entry =
  me_mode :: string
  me_teamName :: string
  me_translatedMode :: "string option"

record rules =
  gameName :: string
  gameType :: string
  mapNames :: "string list option"
  mapRulesList :: "string list"
  modesRulesList :: "string list"
  activeModes :: "string list"
  roundNumber :: int
  coinFlip :: bool
  admin :: bool
  knifeDecider :: bool
  mapPoolSize :: int
  modesSize :: int
  lastWinner :: "string option"

text \<open>
  One record stands for both lobby shapes, as the source casts one object type to the
  other. Fields that a shape does not have (\<^verbatim>\<open>knifeDecider\<close> in a Splatoon lobby,
  \<^verbatim>\<open>bannedModes\<close>, \<^verbatim>\<open>modesRulesList\<close>, \<^verbatim>\<open>activeModes\<close>, \<^verbatim>\<open>roundNumber\<close>,
  \<^verbatim>\<open>modesSize\<close> in an FPS lobby) are only read by the handlers on the shape that has
  them; they hold the fixed values given at creation below.
\<close>

record lobby =
  lobbyId :: string
  members :: "string list"
  teamNames :: "(string \<times> string) list"
  observers :: "string list"
  pickedMaps :: "picked list"
  bannedMaps :: "banned list"
  bannedModes :: "mode_entry list"
  pickedMode :: "mode_entry option"
  gameStep :: int
  priorityTeam :: "string option"
  rules :: rules

subsection \<open>Outbound events\<close>

text \<open>
  \<^verbatim>\<open>io.to(r).emit(name, payload)\<close> addresses the room \<open>r\<close> (a socket is, from its
  connection on, in the room named by its own id); \<^verbatim>\<open>io.emit\<close> addresses every
  connection. The texts of
  \<^verbatim>\<open>gameStateUpdated\<close> and \<^verbatim>\<open>lobbyCreationError\<close> are Russian sentences built from
  templates; each template is a constructor carrying the interpolated values.
\<close>

datatype target = Room string | Everyone

datatype state_msg =
    MsgPoolSizeMustBe7
  | MsgSidePicked string string string
  | MsgPickingMap string
  | MsgBanningMap string
  | MsgDecider string
  | MsgMapBanned string string
  | MsgBanningMapCount string nat nat
  | MsgChoosingMapToPlay "string option"
  | MsgWaitingForBans "string option"
  | MsgModeBanned string string
  | MsgChoosingMode string
  | MsgBanningMode string
  | MsgModePicked string string

datatype payload =
    PNone
  | PBool bool
  | PInt int
  | PStr string
  | PMaps "string list option"
  | PTeams "(string \<times> string) list"
  | PPicked "picked list"
  | PBanned "banned list"
  | PMsg state_msg
  | PSettings string int bool
  | PModes "mode_entry list" "string list" int
  | PModePicked string string "string option"

datatype emit =
    Emit (target: target) (event: string) (payload: payload)
  | EmitAfter nat target string payload

subsection \<open>Server state\<close>

record socket_data =
  rooms :: "string set"
  data_lobbies :: "string list"
  data_pickedMap :: "(string option \<times> string) option"

record server =
  lobbies :: "string \<rightharpoonup> lobby"
  sockets :: "string \<Rightarrow> socket_data"
  globalCoinFlip :: bool
  mapPool_fps :: "string \<rightharpoonup> string list"
  mapPool_splatoon :: "string \<rightharpoonup> string list"

datatype outcome = Outcome (state: server) (emits: "emit list") (threw: bool)

text \<open>
  The server imports the modules \<^verbatim>\<open>./games/fps-games\<close>, \<^verbatim>\<open>./games/splatoon\<close> and
  \<^verbatim>\<open>./utils/input-validation\<close>, whose code lies outside the server file. What the
  handlers take from them is a parameter: the rule tables, the mode translation table,
  the list of game modes, the sanitizer, and the three procedures that receive the
  \<^verbatim>\<open>lobbies\<close> map and may change it and emit events.
\<close>

type_synonym procedure = "string \<Rightarrow> (string \<rightharpoonup> lobby) \<Rightarrow> (string \<rightharpoonup> lobby) \<times> emit list"

record env =
  fps_mapRulesLists :: "string \<Rightarrow> string list"
  splatoon_mapRulesLists :: "string \<Rightarrow> int \<Rightarrow> string list"
  splatoon_modesRulesLists :: "string \<Rightarrow> int \<Rightarrow> string list"
  splatoon_gameModes :: "string list"
  modeTranslations :: "string \<rightharpoonup> string"
  sanitizeInput :: "string \<Rightarrow> string"
  fps_startGame :: procedure
  splatoon_startGame :: procedure
  splatoon_startMapSelectionPhase :: procedure

definition getGameCategory :: "string \<Rightarrow> string" where
  "getGameCategory gn = (if gn = ''splatoon'' then ''splatoon'' else ''fps'')"

definition socket_join :: "string \<Rightarrow> string \<Rightarrow> server \<Rightarrow> server" where
  \<comment> \<open>\<^verbatim>\<open>socket.join(room)\<close>\<close>
  "socket_join sid room s =
     s\<lparr>sockets := (sockets s)(sid := (sockets s sid)\<lparr>rooms := insert room (rooms (sockets s sid))\<rparr>)\<rparr>"

definition delivered :: "server \<Rightarrow> string \<Rightarrow> target \<Rightarrow> bool" where
  \<comment> \<open>whether the connection \<open>c\<close> is among the receivers of an event with this target\<close>
  "delivered s c t = (case t of Everyone \<Rightarrow> True | Room r \<Rightarrow> r \<in> rooms (sockets s c))"

section \<open>Handlers\<close>

subsection \<open>joinLobby\<close>

datatype Roles = Member | Observer | Test

definition joinLobby :: "string \<Rightarrow> string \<Rightarrow> Roles \<Rightarrow> server \<Rightarrow> outcome" where
  "joinLobby sid lid role s =
    (let s1 = socket_join sid lid s in
     if role = Test then
       Outcome s1 [Emit (Room sid)
          (if lobbies s1 lid \<noteq> None then ''lobbyExists'' else ''lobbyUndefined'') (PStr lid)] False
     else case lobbies s1 lid of
       None \<Rightarrow> Outcome s1 [Emit (Room sid) ''lobbyUndefined'' (PStr lid)] False
     | Some lobby \<Rightarrow>
        (let r = rules lobby;
             e1 = (if gameName r = ''splatoon''
                   then [Emit (Room sid) ''modesSizeUpdated'' (PInt (modesSize r))] else []);
             e2 = (if getGameCategory (gameName r) = ''fps''
                   then [Emit (Room sid) ''fpsLobbySettings''
                           (PSettings (gameType r) (mapPoolSize r) (knifeDecider r))] else []);
             e3 = [Emit (Room lid) ''mapNames'' (PMaps (mapNames r)),
                   Emit (Room lid) ''gameName'' (PStr (gameName r))];
             lobby' = (if role = Observer then lobby\<lparr>observers := set_add sid (observers lobby)\<rparr>
                       else if role = Member then lobby\<lparr>members := set_add sid (members lobby)\<rparr>
                       else lobby);
             s2 = s1\<lparr>lobbies := (lobbies s1)(lid \<mapsto> lobby'),
                     sockets := (sockets s1)(sid := (sockets s1 sid)
                        \<lparr>data_lobbies := set_add lid (data_lobbies (sockets s1 sid))\<rparr>)\<rparr>;
             e4 = (if role = Member
                   then [Emit (Room sid) ''teamNamesUpdated'' (PTeams (teamNames lobby'))] else []);
             e5 = (if pickedMaps lobby' \<noteq> []
                   then [Emit (Room sid) ''pickedUpdated'' (PPicked (pickedMaps lobby'))] else []);
             e6 = (if bannedMaps lobby' \<noteq> []
                   then [Emit (Room sid) ''bannedUpdated'' (PBanned (bannedMaps lobby'))] else [])
         in Outcome s2 (e1 @ e2 @ e3 @ e4 @ e5 @ e6) False))"

subsection \<open>createFPSLobby\<close>

record fps_request =
  req_lobbyId :: string
  req_gameName :: string
  req_gameType :: string
  req_knifeDecider :: bool
  req_mapPoolSize :: int
  req_customMapPool :: "(string \<rightharpoonup> string list) option"
  req_coinFlip :: "bool option"
  req_admin :: "bool option"

definition new_fps_lobby :: "env \<Rightarrow> server \<Rightarrow> fps_request \<Rightarrow> string list option \<Rightarrow> lobby" where
  \<comment> \<open>the object literal of lines 232-250\<close>
  "new_fps_lobby env s d selectedMapPool =
     \<lparr>lobbyId = req_lobbyId d, members = [], teamNames = [], observers = [],
      pickedMaps = [], bannedMaps = [], bannedModes = [], pickedMode = None,
      gameStep = js_number (7 - req_mapPoolSize d), priorityTeam = None,
      rules = \<lparr>gameName = req_gameName d, gameType = req_gameType d,
               mapNames = selectedMapPool,
               mapRulesList = fps_mapRulesLists env (req_gameType d),
               modesRulesList = [], activeModes = [], roundNumber = 0,
               coinFlip = (case req_coinFlip d of Some b \<Rightarrow> b | None \<Rightarrow> globalCoinFlip s),
               admin = (case req_admin d of Some b \<Rightarrow> b | None \<Rightarrow> False),
               knifeDecider = req_knifeDecider d, mapPoolSize = req_mapPoolSize d,
               modesSize = 0, lastWinner = None\<rparr>\<rparr>"

definition createFPSLobby :: "env \<Rightarrow> string \<Rightarrow> fps_request \<Rightarrow> server \<Rightarrow> outcome" where
  "createFPSLobby env sid d s =
    (if (req_gameType d = ''bo3'' \<or> req_gameType d = ''bo5'') \<and> req_mapPoolSize d \<noteq> 7 then
       Outcome s [Emit (Room sid) ''lobbyCreationError'' (PMsg MsgPoolSizeMustBe7)] False
     else case lobbies s (req_lobbyId d) of
       Some lobby \<Rightarrow> Outcome s [] False
     | None \<Rightarrow>
        (let sourceMapPool = (case req_customMapPool d of
                                Some custom \<Rightarrow> custom (req_gameName d)
                              | None \<Rightarrow> mapPool_fps s (req_gameName d))
         in if req_mapPoolSize d = 4 \<and> sourceMapPool = None then Outcome s [] True
            else
              (let selectedMapPool = (if req_mapPoolSize d = 4
                                      then map_option (take 4) sourceMapPool else sourceMapPool);
                   lobby = new_fps_lobby env s d selectedMapPool
               in Outcome (s\<lparr>lobbies := (lobbies s)(req_lobbyId d \<mapsto> lobby)\<rparr>)
                    [Emit (Room sid) ''lobbyCreated'' (PStr (req_lobbyId d)),
                     Emit Everyone ''lobbiesUpdated'' PNone] False)))"

subsection \<open>createSplatoonLobby\<close>

record splatoon_request =
  sreq_lobbyId :: string
  sreq_gameType :: string
  sreq_modesSize :: int
  sreq_coinFlip :: "bool option"
  sreq_admin :: "bool option"

definition new_splatoon_lobby :: "env \<Rightarrow> server \<Rightarrow> splatoon_request \<Rightarrow> lobby" where
  \<comment> \<open>the object literal of lines 274-300\<close>
  "new_splatoon_lobby env s d =
     \<lparr>lobbyId = sreq_lobbyId d, members = [], teamNames = [], observers = [],
      pickedMaps = [], bannedMaps = [], bannedModes = [], pickedMode = None,
      gameStep = 0, priorityTeam = None,
      rules = \<lparr>gameName = ''splatoon'', gameType = sreq_gameType d,
               mapNames = Some [],
               mapRulesList = splatoon_mapRulesLists env (sreq_gameType d) (sreq_modesSize d),
               modesRulesList = splatoon_modesRulesLists env (sreq_gameType d) (sreq_modesSize d),
               activeModes = (if sreq_modesSize d = 2 then [''tower'', ''zones'']
                              else splatoon_gameModes env),
               roundNumber = 1,
               coinFlip = (case sreq_coinFlip d of Some b \<Rightarrow> b | None \<Rightarrow> globalCoinFlip s),
               admin = (case sreq_admin d of Some b \<Rightarrow> b | None \<Rightarrow> False),
               knifeDecider = False, mapPoolSize = 32,
               modesSize = sreq_modesSize d, lastWinner = None\<rparr>\<rparr>"

definition createSplatoonLobby :: "env \<Rightarrow> string \<Rightarrow> splatoon_request \<Rightarrow> server \<Rightarrow> outcome" where
  "createSplatoonLobby env sid d s =
    (case lobbies s (sreq_lobbyId d) of
       Some lobby \<Rightarrow> Outcome s [] False
     | None \<Rightarrow>
         Outcome (s\<lparr>lobbies := (lobbies s)(sreq_lobbyId d \<mapsto> new_splatoon_lobby env s d)\<rparr>)
           [Emit (Room sid) ''lobbyCreated'' (PStr (sreq_lobbyId d)),
            Emit Everyone ''lobbiesUpdated'' PNone] False)"

subsection \<open>Emission helpers\<close>

definition cap :: "string \<Rightarrow> string \<Rightarrow> bool \<Rightarrow> emit" where
  \<comment> \<open>\<^verbatim>\<open>io.to(r).emit(name, b)\<close> for one of the capability events\<close>
  "cap r name b = Emit (Room r) name (PBool b)"

definition gameStateUpdated :: "string \<Rightarrow> state_msg \<Rightarrow> emit" where
  "gameStateUpdated lid m = Emit (Room lid) ''gameStateUpdated'' (PMsg m)"

definition modesUpdated :: "string \<Rightarrow> lobby \<Rightarrow> emit" where
  "modesUpdated lid lobby =
     Emit (Room lid) ''modesUpdated''
       (PModes (bannedModes lobby) (activeModes (rules lobby)) (modesSize (rules lobby)))"

definition find_other :: "string \<Rightarrow> (string \<times> string) list \<Rightarrow> (string \<times> string) option" where
  \<comment> \<open>the loop over \<^verbatim>\<open>lobby.teamNames.entries()\<close> that stops at the first entry whose
      name differs from \<^verbatim>\<open>teamName\<close>\<close>
  "find_other teamName tn = find (\<lambda>p. snd p \<noteq> teamName) tn"

definition socketId_of :: "(string \<times> string) option \<Rightarrow> string" where
  \<comment> \<open>the socket id variable of such a loop, initialised to the empty string\<close>
  "socketId_of e = (case e of Some p \<Rightarrow> fst p | None \<Rightarrow> '''')"

definition name_of :: "(string \<times> string) option \<Rightarrow> string" where
  \<comment> \<open>the team name variable of such a loop, initialised to the empty string\<close>
  "name_of e = (case e of Some p \<Rightarrow> snd p | None \<Rightarrow> '''')"

subsection \<open>startGame and lobby.teamName\<close>

text \<open>
  \<^verbatim>\<open>startGame\<close> (lines 59-119) hands the \<^verbatim>\<open>lobbies\<close> map to the game module and, for
  Splatoon, goes on reading the lobby object it fetched before the call. The model reads
  the lobby as the procedure left it in the map (the procedures update lobby objects in
  place), or the object fetched before the call when the procedure removed it.
\<close>

definition startGame :: "env \<Rightarrow> string \<Rightarrow> server \<Rightarrow> outcome" where
  "startGame env lid s =
    (case lobbies s lid of
       None \<Rightarrow> Outcome s [] False
     | Some lobby0 \<Rightarrow>
        if getGameCategory (gameName (rules lobby0)) = ''splatoon'' then
          (let (store1, ex) = splatoon_startGame env lid (lobbies s);
               lobby = (case store1 lid of Some l \<Rightarrow> l | None \<Rightarrow> lobby0);
               firstSocketId = (case teamNames lobby of [] \<Rightarrow> '''' | p # ps \<Rightarrow> fst p);
               e1 = (if \<not> coinFlip (rules lobby)
                     then [Emit (Room lid) ''startWithoutCoin'' PNone] else []);
               e2 = [cap lid ''canWorkUpdated'' False, cap lid ''canModeBan'' False,
                     cap lid ''canModePick'' False, cap lid ''canBan'' False,
                     cap lid ''canPick'' False];
               e3 = (if \<not> coinFlip (rules lobby) \<and> firstSocketId \<noteq> ''''
                     then [cap firstSocketId ''canWorkUpdated'' True,
                           EmitAfter 100 (Room firstSocketId) ''canModeBan'' (PBool True)]
                     else []);
               e4 = [modesUpdated lid lobby]
           in Outcome (s\<lparr>lobbies := store1\<rparr>) (ex @ e1 @ e2 @ e3 @ e4) False)
        else
          (let (store1, ex) = fps_startGame env lid (lobbies s)
           in Outcome (s\<lparr>lobbies := store1\<rparr>) ex False))"

definition lobby_teamName :: "env \<Rightarrow> string \<Rightarrow> string \<Rightarrow> string \<Rightarrow> server \<Rightarrow> outcome" where
  "lobby_teamName env sid lid rawName s =
    (let teamName = sanitizeInput env rawName in
     case lobbies s lid of
       None \<Rightarrow> Outcome s [] False
     | Some lobby \<Rightarrow>
        (let lobby' = lobby\<lparr>teamNames := map_set sid teamName (teamNames lobby)\<rparr>;
             s1 = s\<lparr>lobbies := (lobbies s)(lid \<mapsto> lobby')\<rparr>;
             e1 = [Emit (Room lid) ''teamNamesUpdated'' (PTeams (teamNames lobby'))]
         in if \<not> admin (rules lobby') \<and> length (teamNames lobby') = 2 then
              (let out = startGame env lid s1
               in Outcome (state out) (e1 @ emits out) (threw out))
            else Outcome s1 e1 False))"

subsection \<open>The knife decider\<close>

definition pickedAndBannedMaps :: "lobby \<Rightarrow> string list" where
  "pickedAndBannedMaps lobby = map pmap (pickedMaps lobby) @ map bmap (bannedMaps lobby)"

definition notPickedMap :: "string list \<Rightarrow> lobby \<Rightarrow> string" where
  \<comment> \<open>the loop of lines 519-525 and 1039-1045: no \<^verbatim>\<open>break\<close>, so the last unused map wins\<close>
  "notPickedMap ms lobby =
     foldl (\<lambda>acc mapName. if mapName \<in> set (pickedAndBannedMaps lobby) then acc else mapName) '''' ms"

definition knife_decider :: "string \<Rightarrow> string \<Rightarrow> lobby \<Rightarrow> lobby \<times> emit list \<times> bool" where
  \<comment> \<open>lines 509-537 of lobby.pick and, word for word, lines 1029-1057 of lobby.ban;
      iterating over an undefined \<^verbatim>\<open>mapNames\<close> throws\<close>
  "knife_decider lid otherSocketId lobby =
    (let e0 = [cap otherSocketId ''canWorkUpdated'' False, cap lid ''canWorkUpdated'' False] in
     case mapNames (rules lobby) of
       None \<Rightarrow> (lobby, e0, True)
     | Some ms \<Rightarrow>
        (let m = notPickedMap ms lobby;
             lobby' = lobby\<lparr>pickedMaps := pickedMaps lobby @ [FpsPick m '''' ''DECIDER'' ''''],
                            gameStep := js_inc (gameStep lobby)\<rparr>
         in (lobby', e0 @ [Emit (Room lid) ''pickedUpdated'' (PPicked (pickedMaps lobby')),
                           gameStateUpdated lid (MsgDecider m)], False)))"

subsection \<open>lobby.pick\<close>

definition pick_append :: "string \<Rightarrow> string \<Rightarrow> string \<Rightarrow> lobby \<Rightarrow> lobby" where
  \<comment> \<open>lines 422-477: the entry pushed to \<^verbatim>\<open>pickedMaps\<close> and \<^verbatim>\<open>lobby.gameStep++\<close>\<close>
  "pick_append mapName teamName side lobby =
    (let sideTeamName = teamName;
         mapTeamName =
           (if getGameCategory (gameName (rules lobby)) = ''fps'' \<and> gameType (rules lobby) \<noteq> ''bo1''
            then (case find_other teamName (teamNames lobby) of
                    Some p \<Rightarrow> snd p | None \<Rightarrow> teamName)
            else teamName);
         entry = (if getGameCategory (gameName (rules lobby)) = ''fps''
                  then FpsPick mapName mapTeamName side sideTeamName
                  else SplPick mapName teamName (roundNumber (rules lobby)))
     in lobby\<lparr>pickedMaps := pickedMaps lobby @ [entry], gameStep := js_inc (gameStep lobby)\<rparr>)"

definition pick_append_emits :: "string \<Rightarrow> string \<Rightarrow> string \<Rightarrow> string \<Rightarrow> lobby \<Rightarrow> emit list" where
  \<comment> \<open>the events of lines 422-477\<close>
  "pick_append_emits lid mapName teamName side lobby =
    (if getGameCategory (gameName (rules lobby)) = ''fps'' then
       (if gameType (rules lobby) \<noteq> ''bo1''
        then [gameStateUpdated lid (MsgSidePicked teamName side mapName)] else [])
     else
       [cap lid ''canWorkUpdated'' False, cap lid ''canBan'' False, cap lid ''canPick'' False,
        cap lid ''canModeBan'' False, cap lid ''canModePick'' False,
        cap lid ''canReportWinner'' True])"

definition pick_continue :: "string \<Rightarrow> string \<Rightarrow> string \<Rightarrow> lobby \<Rightarrow> lobby \<times> emit list \<times> bool" where
  \<comment> \<open>lines 484-556, on the lobby after \<^verbatim>\<open>gameStep++\<close>\<close>
  "pick_continue lid sid teamName lobby =
    (let otherSocketId = socketId_of (find_other teamName (teamNames lobby));
         e0 = [Emit (Room otherSocketId) ''endPick'' PNone]
     in if gameStep lobby < 7 \<and> getGameCategory (gameName (rules lobby)) = ''fps'' then
          (let e1 = e0 @ [cap sid ''canWorkUpdated'' True];
               tok = js_index (mapRulesList (rules lobby)) (gameStep lobby)
           in if tok = Some ''pick'' then
                (lobby, e1 @ [cap sid ''canPick'' True,
                              gameStateUpdated lid (MsgPickingMap teamName)], False)
              else if tok = Some ''decider'' then
                (if knifeDecider (rules lobby) then
                   (let (lobby', e2, t) = knife_decider lid otherSocketId lobby
                    in (lobby', e1 @ e2, t))
                 else
                   (lobby, e1 @ [cap sid ''canWorkUpdated'' False,
                                 cap otherSocketId ''canWorkUpdated'' True,
                                 cap otherSocketId ''canPick'' True,
                                 gameStateUpdated lid (MsgPickingMap teamName)], False))
              else if tok = Some ''ban'' then
                (lobby, e1 @ [cap sid ''canBan'' True,
                              gameStateUpdated lid (MsgBanningMap teamName)], False)
              else (lobby, e1, False))
        else (lobby, e0 @ [cap lid ''canWorkUpdated'' False], False))"

definition lobby_pick ::
  "string \<Rightarrow> string \<Rightarrow> string \<Rightarrow> string \<Rightarrow> string \<Rightarrow> server \<Rightarrow> outcome" where
  "lobby_pick sid lid mapName teamName side s =
    (case lobbies s lid of
       None \<Rightarrow> Outcome s [] False
     | Some lobby \<Rightarrow>
        (let lobby1 = pick_append mapName teamName side lobby;
             e1 = pick_append_emits lid mapName teamName side lobby;
             (lobby2, e2, t) = pick_continue lid sid teamName lobby1;
             s' = s\<lparr>lobbies := (lobbies s)(lid \<mapsto> lobby2),
                     sockets := (sockets s)(sid := (sockets s sid)\<lparr>data_pickedMap := None\<rparr>)\<rparr>
         in if t then Outcome s' (e1 @ e2) True
            else Outcome s' (e1 @ e2 @
                   [Emit (Room lid) ''pickedUpdated'' (PPicked (pickedMaps lobby2))]) False))"

subsection \<open>lobby.ban\<close>

definition ban_append :: "string \<Rightarrow> string \<Rightarrow> lobby \<Rightarrow> lobby" where
  \<comment> \<open>lines 586-603: the entry pushed to \<^verbatim>\<open>bannedMaps\<close> and \<^verbatim>\<open>lobby.gameStep++\<close>\<close>
  "ban_append mapName teamName lobby =
    (let entry = (if getGameCategory (gameName (rules lobby)) = ''splatoon''
                  then SplBan mapName teamName (roundNumber (rules lobby))
                  else FpsBan mapName teamName)
     in lobby\<lparr>bannedMaps := bannedMaps lobby @ [entry], gameStep := js_inc (gameStep lobby)\<rparr>)"

definition roundBans :: "lobby \<Rightarrow> banned list" where
  \<comment> \<open>\<^verbatim>\<open>bannedMaps.filter((ban) => ban.roundNumber === rules.roundNumber)\<close>\<close>
  "roundBans lobby =
     filter (\<lambda>ban. ban_roundNumber ban = Some (roundNumber (rules lobby))) (bannedMaps lobby)"

definition bansOf :: "string option \<Rightarrow> banned list \<Rightarrow> banned list" where
  \<comment> \<open>\<^verbatim>\<open>.filter((ban) => ban.teamName === t)\<close>, where \<open>t\<close> may be undefined\<close>
  "bansOf t bans = filter (\<lambda>ban. Some (bteamName ban) = t) bans"

definition first_round_ban :: "string \<Rightarrow> string \<Rightarrow> string \<Rightarrow> lobby \<Rightarrow> emit list" where
  \<comment> \<open>round 1: lines 641-755 for two modes and, with the same steps, lines 760-872 for four\<close>
  "first_round_ban sid lid teamName lobby =
    (let isPriorityTeam = (Some teamName = priorityTeam lobby);
         n = length (bansOf (priorityTeam lobby) (roundBans lobby))
     in if isPriorityTeam \<and> n < 2 then
          [cap sid ''canWorkUpdated'' True, cap sid ''canBan'' True,
           gameStateUpdated lid (MsgBanningMapCount teamName (n + 1) 2)]
        else if \<not> isPriorityTeam \<and> n \<ge> 2 then
          (let k = length (bansOf (Some teamName) (roundBans lobby))
           in if k < 3 then
                [cap sid ''canWorkUpdated'' True, cap sid ''canBan'' True,
                 gameStateUpdated lid (MsgBanningMapCount teamName (k + 1) 3)]
              else
                (let priorityTeamSocketId =
                       socketId_of (find (\<lambda>p. Some (snd p) = priorityTeam lobby) (teamNames lobby))
                 in [cap sid ''canWorkUpdated'' False, cap sid ''canBan'' False,
                     cap priorityTeamSocketId ''canWorkUpdated'' True,
                     cap priorityTeamSocketId ''canPick'' True,
                     gameStateUpdated lid (MsgChoosingMapToPlay (priorityTeam lobby))]))
        else if \<not> isPriorityTeam \<and> n < 2 then
          [cap sid ''canWorkUpdated'' False, cap sid ''canBan'' False,
           gameStateUpdated lid (MsgWaitingForBans (priorityTeam lobby))]
        else if isPriorityTeam \<and> n \<ge> 2 then
          (let other = find (\<lambda>p. Some (snd p) \<noteq> priorityTeam lobby) (teamNames lobby)
           in [cap sid ''canWorkUpdated'' False, cap sid ''canBan'' False,
               cap (socketId_of other) ''canWorkUpdated'' True,
               cap (socketId_of other) ''canBan'' True,
               gameStateUpdated lid (MsgBanningMapCount (name_of other) 1 3)])
        else [])"

definition next_round_ban :: "string \<Rightarrow> string \<Rightarrow> string \<Rightarrow> lobby \<Rightarrow> emit list" where
  \<comment> \<open>rounds after the first, lines 876-1009\<close>
  "next_round_ban sid lid teamName lobby =
    (let isWinningTeam = (Some teamName = lastWinner (rules lobby));
         k = length (bansOf (Some teamName) (roundBans lobby));
         other = find_other teamName (teamNames lobby)
     in if modesSize (rules lobby) = 2 then
          (if isWinningTeam then
             (if k < 2 then
                [cap sid ''canWorkUpdated'' True, cap sid ''canBan'' True,
                 gameStateUpdated lid (MsgBanningMapCount teamName (k + 1) 2)]
              else
                [cap sid ''canWorkUpdated'' False, cap sid ''canBan'' False,
                 cap (socketId_of other) ''canWorkUpdated'' True,
                 cap (socketId_of other) ''canBan'' True,
                 gameStateUpdated lid (MsgBanningMapCount (name_of other) 1 3)])
           else
             (if k < 3 then
                [cap sid ''canWorkUpdated'' True, cap sid ''canBan'' True,
                 gameStateUpdated lid (MsgBanningMapCount teamName (k + 1) 3)]
              else
                (let winner = find (\<lambda>p. Some (snd p) = lastWinner (rules lobby)) (teamNames lobby)
                 in [cap sid ''canWorkUpdated'' False, cap sid ''canBan'' False,
                     cap (socketId_of winner) ''canWorkUpdated'' True,
                     cap (socketId_of winner) ''canPick'' True,
                     gameStateUpdated lid (MsgChoosingMapToPlay (Some (name_of winner)))])))
        else
          (if isWinningTeam then
             (if k < 3 then
                [cap sid ''canWorkUpdated'' True, cap sid ''canBan'' True,
                 gameStateUpdated lid (MsgBanningMapCount teamName (k + 1) 3)]
              else
                [cap sid ''canWorkUpdated'' False, cap sid ''canBan'' False,
                 cap (socketId_of other) ''canWorkUpdated'' True,
                 cap (socketId_of other) ''canPick'' True,
                 gameStateUpdated lid (MsgChoosingMapToPlay (Some (name_of other)))])
           else []))"

definition ban_continue :: "string \<Rightarrow> string \<Rightarrow> string \<Rightarrow> lobby \<Rightarrow> lobby \<times> emit list \<times> bool" where
  \<comment> \<open>lines 611-1076, on the lobby after \<^verbatim>\<open>gameStep++\<close>\<close>
  "ban_continue lid sid teamName lobby =
    (let other = find_other teamName (teamNames lobby);
         otherSocketId = socketId_of other;
         otherName = name_of other
     in if getGameCategory (gameName (rules lobby)) = ''splatoon'' then
          (lobby,
           (if roundNumber (rules lobby) = 1 then
              (if modesSize (rules lobby) = 2 then first_round_ban sid lid teamName lobby
               else first_round_ban sid lid teamName lobby)
            else next_round_ban sid lid teamName lobby), False)
        else if gameStep lobby < 7 \<and> getGameCategory (gameName (rules lobby)) = ''fps'' then
          (let e1 = [cap otherSocketId ''canWorkUpdated'' True];
               tok = js_index (mapRulesList (rules lobby)) (gameStep lobby)
           in if tok = Some ''pick'' then
                (lobby, e1 @ [cap otherSocketId ''canPick'' True,
                              gameStateUpdated lid (MsgPickingMap otherName)], False)
              else if tok = Some ''decider'' then
                (if knifeDecider (rules lobby) then
                   (let (lobby', e2, t) = knife_decider lid otherSocketId lobby
                    in (lobby', e1 @ e2, t))
                 else
                   (lobby, e1 @ [cap sid ''canWorkUpdated'' False,
                                 cap otherSocketId ''canWorkUpdated'' True,
                                 cap otherSocketId ''canPick'' True,
                                 gameStateUpdated lid (MsgPickingMap teamName)], False))
              else if tok = Some ''ban'' then
                (lobby, e1 @ [cap otherSocketId ''canBan'' True,
                              gameStateUpdated lid (MsgBanningMap otherName)], False)
              else (lobby, e1, False))
        else (lobby, [cap lid ''canWorkUpdated'' False], False))"

definition lobby_ban :: "string \<Rightarrow> string \<Rightarrow> string \<Rightarrow> string \<Rightarrow> server \<Rightarrow> outcome" where
  "lobby_ban sid lid mapName teamName s =
    (case lobbies s lid of
       None \<Rightarrow> Outcome s [] False
     | Some lobby \<Rightarrow>
        (let lobby1 = ban_append mapName teamName lobby;
             e1 = (if getGameCategory (gameName (rules lobby)) = ''splatoon''
                   then [gameStateUpdated lid (MsgMapBanned teamName mapName)] else [])
                  @ [Emit (Room lid) ''bannedUpdated'' (PBanned (bannedMaps lobby1)),
                     cap sid ''canWorkUpdated'' False, cap sid ''canBan'' False];
             (lobby2, e2, t) = ban_continue lid sid teamName lobby1
         in Outcome (s\<lparr>lobbies := (lobbies s)(lid \<mapsto> lobby2)\<rparr>) (e1 @ e2) t))"

subsection \<open>lobby.modeBan and lobby.modePick\<close>

definition translated :: "env \<Rightarrow> string \<Rightarrow> string" where
  \<comment> \<open>\<^verbatim>\<open>Splatoon.modeTranslations[mode] || mode\<close>: an undefined or empty translation
      gives the mode itself\<close>
  "translated env mode =
     (case modeTranslations env mode of
        None \<Rightarrow> mode
      | Some t \<Rightarrow> if t = '''' then mode else t)"

definition lobby_modeBan :: "env \<Rightarrow> string \<Rightarrow> string \<Rightarrow> string \<Rightarrow> string \<Rightarrow> server \<Rightarrow> outcome" where
  "lobby_modeBan env sid lid mode teamName s =
    (case lobbies s lid of
       None \<Rightarrow> Outcome s [] False
     | Some lobby \<Rightarrow>
        if getGameCategory (gameName (rules lobby)) \<noteq> ''splatoon'' then Outcome s [] False
        else if modesSize (rules lobby) = 2 then Outcome s [] False
        else
          (let lobby1 = lobby\<lparr>
                 bannedModes := bannedModes lobby @
                   [\<lparr>me_mode = mode, me_teamName = teamName,
                     me_translatedMode = Some (translated env mode)\<rparr>],
                 gameStep := js_inc (gameStep lobby),
                 rules := (rules lobby)\<lparr>activeModes := remove1 mode (activeModes (rules lobby))\<rparr>\<rparr>;
               other = find_other teamName (teamNames lobby1);
               otherSocketId = socketId_of other;
               otherName = name_of other;
               e1 = [gameStateUpdated lid (MsgModeBanned teamName (translated env mode)),
                     cap sid ''canWorkUpdated'' False, cap sid ''canModeBan'' False,
                     cap sid ''canModePick'' False];
               e2 = (if roundNumber (rules lobby1) > 1 then
                       (if Some teamName = lastWinner (rules lobby1) then
                          [cap otherSocketId ''canWorkUpdated'' True,
                           cap otherSocketId ''canModePick'' True,
                           cap otherSocketId ''canModeBan'' False,
                           gameStateUpdated lid (MsgChoosingMode otherName)]
                        else [])
                     else if length (bannedModes lobby1) = 2 then
                       (if me_teamName (bannedModes lobby1 ! 0) = teamName then
                          [cap sid ''canWorkUpdated'' True, cap sid ''canModePick'' True,
                           cap sid ''canModeBan'' False,
                           gameStateUpdated lid (MsgChoosingMode teamName)]
                        else
                          [cap sid ''canWorkUpdated'' False, cap sid ''canModeBan'' False,
                           cap otherSocketId ''canWorkUpdated'' True,
                           cap otherSocketId ''canModePick'' True,
                           cap otherSocketId ''canModeBan'' False,
                           gameStateUpdated lid (MsgChoosingMode otherName)])
                     else
                       [cap otherSocketId ''canWorkUpdated'' True,
                        cap otherSocketId ''canModeBan'' True,
                        cap otherSocketId ''canModePick'' False,
                        cap sid ''canWorkUpdated'' False, cap sid ''canModeBan'' False,
                        gameStateUpdated lid (MsgBanningMode otherName)])
           in Outcome (s\<lparr>lobbies := (lobbies s)(lid \<mapsto> lobby1)\<rparr>)
                (e1 @ e2 @ [modesUpdated lid lobby1]) False))"

definition lobby_modePick :: "env \<Rightarrow> string \<Rightarrow> string \<Rightarrow> string \<Rightarrow> string \<Rightarrow> server \<Rightarrow> outcome" where
  "lobby_modePick env sid lid mode teamName s =
    (case lobbies s lid of
       None \<Rightarrow> Outcome s [] False
     | Some lobby \<Rightarrow>
        if getGameCategory (gameName (rules lobby)) \<noteq> ''splatoon'' then Outcome s [] False
        else
          (let lobby1 = lobby\<lparr>
                 pickedMode := Some \<lparr>me_mode = mode, me_teamName = teamName,
                                     me_translatedMode = modeTranslations env mode\<rparr>,
                 gameStep := js_inc (gameStep lobby),
                 rules := (rules lobby)\<lparr>mapNames := mapPool_splatoon s mode\<rparr>\<rparr>;
               e1 = [gameStateUpdated lid (MsgModePicked teamName (translated env mode)),
                     Emit (Room lid) ''availableMaps'' (PMaps (mapNames (rules lobby1))),
                     cap lid ''canWorkUpdated'' False, cap lid ''canModeBan'' False,
                     cap lid ''canModePick'' False, cap lid ''canBan'' False,
                     cap lid ''canPick'' False];
               (store2, e2) = splatoon_startMapSelectionPhase env lid ((lobbies s)(lid \<mapsto> lobby1))
           in Outcome (s\<lparr>lobbies := store2\<rparr>)
                (e1 @ e2 @ [Emit (Room lid) ''modePicked''
                              (PModePicked mode teamName (modeTranslations env mode))]) False))"

subsection \<open>disconnect\<close>

definition disconnect_lobby ::
  "string \<Rightarrow> (string \<rightharpoonup> lobby) \<times> emit list \<Rightarrow> string \<Rightarrow> (string \<rightharpoonup> lobby) \<times> emit list" where
  \<comment> \<open>one turn of the loop of lines 1551-1577\<close>
  "disconnect_lobby sid acc lid =
    (case fst acc lid of
       None \<Rightarrow> acc
     | Some lobby \<Rightarrow>
        (let lobby' = lobby\<lparr>members := set_delete sid (members lobby),
                            teamNames := map_delete sid (teamNames lobby)\<rparr>;
             e = Emit (Room lid) ''teamNamesUpdated'' (PTeams (teamNames lobby'))
         in if members lobby' = [] \<and> \<not> admin (rules lobby')
            then ((fst acc)(lid := None), snd acc @ [e, Emit Everyone ''lobbiesUpdated'' PNone])
            else ((fst acc)(lid \<mapsto> lobby'), snd acc @ [e, e])))"

definition disconnect :: "string \<Rightarrow> server \<Rightarrow> outcome" where
  \<comment> \<open>the handler runs after the closing socket has left its rooms\<close>
  "disconnect sid s =
    (let (store, es) = foldl (disconnect_lobby sid) (lobbies s, []) (data_lobbies (sockets s sid))
     in Outcome (s\<lparr>lobbies := store,
                    sockets := (sockets s)(sid := (sockets s sid)\<lparr>rooms := {}\<rparr>)\<rparr>) es False)"

subsection \<open>admin.delete\<close>

text \<open>
  Besides \<^verbatim>\<open>disconnect\<close> this is the only handler of the server that takes a socket out
  of a room: the members of the deleted lobby leave its room and drop its id from their
  sets of lobbies, after \<^verbatim>\<open>lobbyDeleted\<close> has gone to the room; observers stay in it. A
  member is a connected socket, so the lookup of its socket (line 1089) finds it.
\<close>

definition admin_delete :: "string \<Rightarrow> server \<Rightarrow> outcome" where
  "admin_delete lid s =
    (case lobbies s lid of
       None \<Rightarrow> Outcome s [] False
     | Some lobby \<Rightarrow>
         Outcome (s\<lparr>lobbies := (lobbies s)(lid := None),
                    sockets := (\<lambda>c. if c \<in> set (members lobby)
                                    then (sockets s c)\<lparr>rooms := rooms (sockets s c) - {lid},
                                           data_lobbies := set_delete lid (data_lobbies (sockets s c))\<rparr>
                                    else sockets s c)\<rparr>)
           [Emit (Room lid) ''lobbyDeleted'' (PStr lid),
            Emit Everyone ''lobbiesUpdated'' PNone] False)"

subsection \<open>Inbound events and runs\<close>

datatype inbound =
    JoinLobby string Roles
  | CreateFPSLobby fps_request
  | CreateSplatoonLobby splatoon_request
  | LobbyTeamName string string
  | LobbyPick string string string string
  | LobbyBan string string string
  | LobbyModeBan string string string
  | LobbyModePick string string string
  | AdminDelete string
  | Disconnect

fun handle :: "env \<Rightarrow> string \<Rightarrow> inbound \<Rightarrow> server \<Rightarrow> outcome" where
  "handle env sid (JoinLobby lid role) s = joinLobby sid lid role s"
| "handle env sid (CreateFPSLobby d) s = createFPSLobby env sid d s"
| "handle env sid (CreateSplatoonLobby d) s = createSplatoonLobby env sid d s"
| "handle env sid (LobbyTeamName lid n) s = lobby_teamName env sid lid n s"
| "handle env sid (LobbyPick lid m t side) s = lobby_pick sid lid m t side s"
| "handle env sid (LobbyBan lid m t) s = lobby_ban sid lid m t s"
| "handle env sid (LobbyModeBan lid m t) s = lobby_modeBan env sid lid m t s"
| "handle env sid (LobbyModePick lid m t) s = lobby_modePick env sid lid m t s"
| "handle env sid (AdminDelete lid) s = admin_delete lid s"
| "handle env sid Disconnect s = disconnect sid s"

fun run :: "env \<Rightarrow> (string \<times> inbound) list \<Rightarrow> server \<Rightarrow> server" where
  \<comment> \<open>the events of a history, handled one after the other; a handler that throws leaves
      the state as it was at the throw\<close>
  "run env [] s = s"
| "run env ((sid, ev) # evs) s = run env evs (state (handle env sid ev s))"

definition fresh_socket :: "string \<Rightarrow> socket_data" where
  \<comment> \<open>a socket at its connection: in the room of its own id, and line 124,
      \<^verbatim>\<open>socket.data.lobbies = new Set()\<close>\<close>
  "fresh_socket sid = \<lparr>rooms = {sid}, data_lobbies = [], data_pickedMap = None\<rparr>"

definition initial_server :: "(string \<rightharpoonup> string list) \<Rightarrow> (string \<rightharpoonup> string list) \<Rightarrow> server" where
  \<comment> \<open>lines 18-25, for the two start map pools of the game modules\<close>
  "initial_server fpsPool splatoonPool =
     \<lparr>lobbies = Map.empty, sockets = fresh_socket, globalCoinFlip = True,
      mapPool_fps = fpsPool, mapPool_splatoon = splatoonPool\<rparr>"

subsection \<open>Capabilities held after a step\<close>

definition capabilities :: "string list" where
  "capabilities = [''canWorkUpdated'', ''canBan'', ''canPick'', ''canModeBan'', ''canModePick'',
                   ''canReportWinner'']"

fun cap_value :: "server \<Rightarrow> string \<Rightarrow> string \<Rightarrow> emit \<Rightarrow> bool option" where
  \<comment> \<open>the value that the connection \<open>c\<close> receives for the capability \<open>name\<close> with one event\<close>
  "cap_value s c name (Emit t n (PBool b)) = (if n = name \<and> delivered s c t then Some b else None)"
| "cap_value s c name e = None"

definition granted :: "server \<Rightarrow> string \<Rightarrow> string \<Rightarrow> emit list \<Rightarrow> bool" where
  \<comment> \<open>the last value of the capability that \<open>c\<close> receives in the step is \<^verbatim>\<open>true\<close>;
      the handlers of team actions emit no deferred event\<close>
  "granted s c name es =
     (case List.map_filter (cap_value s c name) es of [] \<Rightarrow> False | v # vs \<Rightarrow> last (v # vs))"

definition received :: "server \<Rightarrow> string \<Rightarrow> string \<Rightarrow> emit list \<Rightarrow> bool list" where
  \<comment> \<open>the values of the capability \<open>name\<close> that \<open>c\<close> receives in the step, in order\<close>
  "received s c name es = List.map_filter (cap_value s c name) es"

definition decider_entries :: "lobby \<Rightarrow> picked list" where
  \<comment> \<open>what the knife decider branch (lines 497 and 507-531 of lobby.pick) appends for a
      lobby that stands at its step after \<^verbatim>\<open>gameStep++\<close>: one entry when the branch is
      taken and \<^verbatim>\<open>mapNames\<close> is defined, nothing otherwise\<close>
  "decider_entries lobby =
     (if gameStep lobby < 7 \<and> getGameCategory (gameName (rules lobby)) = ''fps''
         \<and> js_index (mapRulesList (rules lobby)) (gameStep lobby) = Some ''decider''
         \<and> knifeDecider (rules lobby)
      then (case mapNames (rules lobby) of
              None \<Rightarrow> []
            | Some ms \<Rightarrow> [FpsPick (notPickedMap ms lobby) '''' ''DECIDER'' ''''])
      else [])"




subsection \<open>A concrete environment\<close>

definition spec_fps_mapRulesLists :: "string \<Rightarrow> string list" where
  \<comment> \<open>Modelled from the spec: the table \<^verbatim>\<open>FPSGames.mapRulesLists\<close> of the module
      \<^verbatim>\<open>./games/fps-games\<close>. The spec gives the pattern of BO1 (six bans, then a pick) and
      of BO3 (ban, ban, pick, pick, ban, ban, decider) in its scenarios 1 and 2; it gives
      no pattern for another game type, and the table is empty there.\<close>
  "spec_fps_mapRulesLists gt =
     (if gt = ''bo1'' then [''ban'', ''ban'', ''ban'', ''ban'', ''ban'', ''ban'', ''pick'']
      else if gt = ''bo3'' then [''ban'', ''ban'', ''pick'', ''pick'', ''ban'', ''ban'', ''decider'']
      else [])"

definition spec_env :: env where
  \<comment> \<open>Modelled from the spec: the parts of \<^verbatim>\<open>./games/fps-games\<close>, \<^verbatim>\<open>./games/splatoon\<close>
      and \<^verbatim>\<open>./utils/input-validation\<close> that the histories below store or call. Round 1 of
      Splatoon has the map pattern five bans and a pick; the mode pattern is ban, ban, pick
      for four modes and a pick for two; the four modes are those named in the spec's
      scenarios; the sanitizer leaves a short printable name as it is. No history below
      looks a mode translation up or reaches a call of the three procedures, which stand
      here as the empty table and as procedures without effect.\<close>
  "spec_env =
     \<lparr>fps_mapRulesLists = spec_fps_mapRulesLists,
      splatoon_mapRulesLists = (\<lambda>gt n. [''ban'', ''ban'', ''ban'', ''ban'', ''ban'', ''pick'']),
      splatoon_modesRulesLists = (\<lambda>gt n. if n = 2 then [''pick''] else [''ban'', ''ban'', ''pick'']),
      splatoon_gameModes = [''tower'', ''zones'', ''rainmaker'', ''clams''],
      modeTranslations = Map.empty,
      sanitizeInput = (\<lambda>n. n),
      fps_startGame = (\<lambda>lid store. (store, [])),
      splatoon_startGame = (\<lambda>lid store. (store, [])),
      splatoon_startMapSelectionPhase = (\<lambda>lid store. (store, []))\<rparr>"

subsection \<open>Concrete requests and histories\<close>

text \<open>
  The histories start from the server with no lobby. Every FPS request brings its own map
  pool (\<^verbatim>\<open>customMapPool\<close>), so the start map pools of the game modules are not read;
  they are empty here. The lobbies are admin lobbies unless said otherwise, so that
  \<^verbatim>\<open>lobby.teamName\<close> does not go on to \<^verbatim>\<open>startGame\<close>.
\<close>

definition cs_pool :: "string list" where
  "cs_pool = [''m1'', ''m2'', ''m3'', ''m4'', ''m5'', ''m6'', ''m7'']"

definition fps_req :: "string \<Rightarrow> bool \<Rightarrow> bool \<Rightarrow> fps_request" where
  "fps_req gt knife adm =
     \<lparr>req_lobbyId = ''L'', req_gameName = ''cs2'', req_gameType = gt, req_knifeDecider = knife,
      req_mapPoolSize = 7, req_customMapPool = Some [''cs2'' \<mapsto> cs_pool],
      req_coinFlip = Some False, req_admin = Some adm\<rparr>"

definition splatoon_req :: splatoon_request where
  "splatoon_req =
     \<lparr>sreq_lobbyId = ''S'', sreq_gameType = ''bo3'', sreq_modesSize = 2,
      sreq_coinFlip = Some False, sreq_admin = Some True\<rparr>"

definition server0 :: server where
  "server0 = initial_server Map.empty Map.empty"

definition two_teams :: "string \<Rightarrow> bool \<Rightarrow> (string \<times> inbound) list" where
  \<comment> \<open>an admin lobby \<open>L\<close> with the members \<open>a\<close> and \<open>b\<close>, teams \<open>A\<close> and \<open>B\<close>\<close>
  "two_teams gt knife =
     [(''adm'', CreateFPSLobby (fps_req gt knife True)),
      (''a'', JoinLobby ''L'' Member), (''b'', JoinLobby ''L'' Member),
      (''a'', LobbyTeamName ''L'' ''A''), (''b'', LobbyTeamName ''L'' ''B'')]"

definition bo1_state :: server where
  "bo1_state = run spec_env (two_teams ''bo1'' False) server0"

definition three_teams_state :: server where
  \<comment> \<open>a third connection joins the lobby as a member and names its team\<close>
  "three_teams_state =
     run spec_env (two_teams ''bo1'' False @
       [(''c'', JoinLobby ''L'' Member), (''c'', LobbyTeamName ''L'' ''C'')]) server0"

definition bo3_two_bans_state :: server where
  "bo3_two_bans_state =
     run spec_env (two_teams ''bo3'' True @
       [(''a'', LobbyBan ''L'' ''m1'' ''A''), (''b'', LobbyBan ''L'' ''m2'' ''B'')]) server0"

definition bo3_five_actions_state :: server where
  \<comment> \<open>BO3 with knife decider: ban, ban, pick, pick, ban are done, the sixth token is a ban\<close>
  "bo3_five_actions_state =
     run spec_env
       [(''b'', LobbyPick ''L'' ''m3'' ''B'' ''t''), (''a'', LobbyPick ''L'' ''m4'' ''A'' ''ct''),
        (''a'', LobbyBan ''L'' ''m5'' ''A'')] bo3_two_bans_state"

definition observed_state :: server where
  \<comment> \<open>a lobby that is not an admin lobby, with the member \<open>a\<close> and the observer \<open>o\<close>\<close>
  "observed_state =
     run spec_env
       [(''adm'', CreateFPSLobby (fps_req ''bo1'' False False)),
        (''a'', JoinLobby ''L'' Member), (''o'', JoinLobby ''L'' Observer)] server0"

definition splatoon_state :: server where
  \<comment> \<open>a Splatoon lobby \<open>S\<close> with the members \<open>a\<close> and \<open>b\<close> and the observer \<open>o\<close>\<close>
  "splatoon_state =
     run spec_env
       [(''adm'', CreateSplatoonLobby splatoon_req),
        (''a'', JoinLobby ''S'' Member), (''b'', JoinLobby ''S'' Member),
        (''o'', JoinLobby ''S'' Observer)] server0"

definition demo_lobby :: "string \<Rightarrow> bool \<Rightarrow> picked list \<Rightarrow> banned list \<Rightarrow> int \<Rightarrow> lobby" where
  \<comment> \<open>the lobby \<open>L\<close> of \<open>two_teams\<close> after the given picks and bans\<close>
  "demo_lobby gt knife picks bans step =
     \<lparr>lobbyId = ''L'', members = [''a'', ''b''], teamNames = [(''a'', ''A''), (''b'', ''B'')],
      observers = [], pickedMaps = picks, bannedMaps = bans, bannedModes = [],
      pickedMode = None, gameStep = step, priorityTeam = None,
      rules = \<lparr>gameName = ''cs2'', gameType = gt, mapNames = Some cs_pool,
               mapRulesList = spec_fps_mapRulesLists gt, modesRulesList = [],
               activeModes = [], roundNumber = 0, coinFlip = False, admin = True,
               knifeDecider = knife, mapPoolSize = 7, modesSize = 0, lastWinner = None\<rparr>\<rparr>"

section \<open>Evaluation and helper lemmas\<close>

lemmas ev_defs =
  server0_def initial_server_def fresh_socket_def fps_req_def splatoon_req_def cs_pool_def
  two_teams_def bo1_state_def three_teams_state_def bo3_two_bans_state_def
  bo3_five_actions_state_def observed_state_def splatoon_state_def demo_lobby_def
  createFPSLobby_def new_fps_lobby_def createSplatoonLobby_def new_splatoon_lobby_def
  joinLobby_def socket_join_def lobby_teamName_def startGame_def
  lobby_ban_def ban_append_def ban_continue_def
  lobby_pick_def pick_append_def pick_append_emits_def pick_continue_def
  knife_decider_def notPickedMap_def pickedAndBannedMaps_def
  disconnect_def disconnect_lobby_def admin_delete_def set_delete_def map_delete_def
  getGameCategory_def find_other_def socketId_of_def name_of_def js_index_def
  js_inc_def js_number_def
  cap_def gameStateUpdated_def spec_env_def spec_fps_mapRulesLists_def set_add_def
  granted_def received_def delivered_def capabilities_def Let_def

subsection \<open>Numbers\<close>

lemma js_inc_exact:
  assumes "- (2 ^ 53) \<le> x" and "x < 2 ^ 53"
  shows "js_inc x = x + 1"
proof (cases "x + 1 = 2 ^ 53")
  case True
  have "js_number (2 ^ 53) = 2 ^ 53" by code_simp
  with True show ?thesis by (simp add: js_inc_def)
next
  case False
  with assms have "\<bar>x + 1\<bar> < 2 ^ 53" by simp
  then show ?thesis by (simp add: js_inc_def js_number_def)
qed

lemma js_inc_step:
  assumes "0 \<le> x" and "x < 7"
  shows "js_inc x = x + 1"
  using assms by (simp add: js_inc_def js_number_def)

text \<open>
  From \<open>2 ^ 53\<close> on the increment no longer adds one: it leaves \<open>2 ^ 53\<close> as it is, as
  it leaves the step \<open>7 - 10000000000000000\<close> of a lobby created with that map pool size.
\<close>

lemma js_inc_stalls:
  "js_inc (2 ^ 53) = 2 ^ 53
   \<and> js_number (7 - 10000000000000000) = - 9999999999999992
   \<and> js_inc (- 9999999999999992) = - 9999999999999992"
  by code_simp

lemma js_index_nonneg:
  assumes "js_index xs i = Some v"
  shows "0 \<le> i"
  using assms by (simp add: js_index_def split: if_splits)

subsection \<open>Containers\<close>

lemma map_set_keys: "map fst (map_set k v ps) = set_add k (map fst ps)"
  by (induction ps) (auto simp: set_add_def rev_image_eqI)


subsection \<open>The knife decider\<close>







subsection \<open>Capabilities\<close>


subsection \<open>Rooms\<close>

text \<open>
  A socket joins the room of a lobby id with \<^verbatim>\<open>joinLobby\<close>, whatever the role and
  whether the lobby exists. It stays in the room through every handler but its own
  \<^verbatim>\<open>disconnect\<close> and an \<^verbatim>\<open>admin.delete\<close> of that lobby id.
\<close>

lemma joinLobby_rooms: "lid \<in> rooms (sockets (state (joinLobby c lid role s)) c)"
  by (simp add: joinLobby_def socket_join_def Let_def split: option.splits)

lemma startGame_sockets: "sockets (state (startGame env lid s)) = sockets s"
  by (simp add: startGame_def Let_def split: option.splits prod.splits)

lemma handle_rooms:
  assumes "\<not> (sid = c \<and> ev = Disconnect)" and "ev \<noteq> AdminDelete r"
    and "r \<in> rooms (sockets s c)"
  shows "r \<in> rooms (sockets (state (handle env sid ev s)) c)"
proof (cases ev)
  case (JoinLobby lid role)
  then show ?thesis using assms(3)
    by (auto simp: joinLobby_def socket_join_def Let_def split: option.splits)
next
  case (CreateFPSLobby d)
  then show ?thesis using assms(3)
    by (simp add: createFPSLobby_def Let_def split: option.splits)
next
  case (CreateSplatoonLobby d)
  then show ?thesis using assms(3)
    by (simp add: createSplatoonLobby_def split: option.splits)
next
  case (LobbyTeamName lid n)
  then show ?thesis using assms(3)
    by (simp add: lobby_teamName_def Let_def startGame_sockets split: option.splits)
next
  case (LobbyPick lid m t side)
  then show ?thesis using assms(3)
    by (auto simp: lobby_pick_def Let_def split: option.splits prod.splits)
next
  case (LobbyBan lid m t)
  then show ?thesis using assms(3)
    by (simp add: lobby_ban_def Let_def split: option.splits prod.splits)
next
  case (LobbyModeBan lid m t)
  then show ?thesis using assms(3)
    by (simp add: lobby_modeBan_def Let_def split: option.splits)
next
  case (LobbyModePick lid m t)
  then show ?thesis using assms(3)
    by (simp add: lobby_modePick_def Let_def split: option.splits prod.splits)
next
  case (AdminDelete lid)
  with assms(2) have "lid \<noteq> r" by simp
  with AdminDelete show ?thesis using assms(3)
    by (simp add: admin_delete_def split: option.splits)
next
  case Disconnect
  with assms(1) have "sid \<noteq> c" by simp
  with Disconnect show ?thesis using assms(3)
    by (simp add: disconnect_def Let_def split: prod.splits)
qed

lemma run_rooms:
  assumes "(c, Disconnect) \<notin> set evs" and "AdminDelete r \<notin> snd ` set evs"
    and "r \<in> rooms (sockets s c)"
  shows "r \<in> rooms (sockets (run env evs s) c)"
  using assms
proof (induction evs arbitrary: s)
  case Nil
  then show ?case by simp
next
  case (Cons e evs)
  obtain sid ev where e: "e = (sid, ev)" by (cases e)
  with Cons.prems(1,2) have n: "\<not> (sid = c \<and> ev = Disconnect)" and d: "ev \<noteq> AdminDelete r"
    and rest: "(c, Disconnect) \<notin> set evs" "AdminDelete r \<notin> snd ` set evs"
    by auto
  from handle_rooms[OF n d Cons.prems(3)]
  have "r \<in> rooms (sockets (state (handle env sid ev s)) c)" .
  from Cons.IH[OF rest this] show ?case by (simp add: e)
qed

subsection \<open>Disconnection\<close>

text \<open>
  The \<^verbatim>\<open>disconnect\<close> handler deletes from \<^verbatim>\<open>members\<close> and \<^verbatim>\<open>teamNames\<close> only: a
  lobby that is in the store after the handler has the observers it had before.
\<close>

lemma disconnect_lobby_observers:
  assumes "fst (disconnect_lobby sid acc x) lid = Some l'"
  shows "\<exists>l. fst acc lid = Some l \<and> observers l' = observers l"
  using assms
  by (auto simp: disconnect_lobby_def Let_def split: option.splits if_splits)

lemma foldl_disconnect_observers:
  assumes "fst (foldl (disconnect_lobby sid) acc xs) lid = Some l'"
  shows "\<exists>l. fst acc lid = Some l \<and> observers l' = observers l"
  using assms
proof (induction xs arbitrary: acc)
  case Nil
  then show ?case by simp
next
  case (Cons x xs)
  from Cons.prems have "fst (foldl (disconnect_lobby sid) (disconnect_lobby sid acc x) xs) lid = Some l'"
    by simp
  from Cons.IH[OF this] obtain l1
    where s1: "fst (disconnect_lobby sid acc x) lid = Some l1" and o1: "observers l' = observers l1"
    by blast
  from disconnect_lobby_observers[OF s1] obtain l
    where "fst acc lid = Some l" and "observers l1 = observers l"
    by blast
  with o1 show ?case by simp
qed

lemma disconnect_observers_unchanged:
  assumes "lobbies (state (disconnect sid s)) lid = Some l'"
  shows "\<exists>l. lobbies s lid = Some l \<and> observers l' = observers l"
proof -
  obtain store es
    where f: "foldl (disconnect_lobby sid) (lobbies s, []) (data_lobbies (sockets s sid)) = (store, es)"
    by (cases "foldl (disconnect_lobby sid) (lobbies s, []) (data_lobbies (sockets s sid))")
  have "lobbies (state (disconnect sid s)) = store"
    by (simp add: disconnect_def f)
  with assms have "fst (foldl (disconnect_lobby sid) (lobbies s, []) (data_lobbies (sockets s sid))) lid
                     = Some l'"
    by (simp add: f)
  from foldl_disconnect_observers[OF this] show ?thesis by simp
qed

section \<open>Lobby creation\<close>

text \<open>
  C9. A lobby that \<^verbatim>\<open>createFPSLobby\<close> has just put into the store for a request with map
  pool size \<open>p\<close>, \<open>p = 4\<close> or \<open>p = 7\<close>, starts with \<^verbatim>\<open>gameStep\<close> equal to \<open>7 - p\<close>.
\<close>

theorem createFPSLobby_initial_gameStep:
  assumes "lobbies s (req_lobbyId d) = None"
    and "req_mapPoolSize d \<in> {4, 7}"
    and "lobbies (state (createFPSLobby env sid d s)) (req_lobbyId d) = Some l"
  shows "gameStep l = 7 - req_mapPoolSize d"
  using assms
  by (auto simp: createFPSLobby_def new_fps_lobby_def js_number_def Let_def
      split: if_splits option.splits)

text \<open>C9, at a BO1 request with a pool of four maps: the lobby starts at step 3.\<close>

theorem createFPSLobby_initial_gameStep_witness:
  "lobbies server0 ''L'' = None
   \<and> req_mapPoolSize ((fps_req ''bo1'' False False)\<lparr>req_mapPoolSize := 4\<rparr>) \<in> {4, 7}
   \<and> lobbies (state (createFPSLobby spec_env ''adm''
                       ((fps_req ''bo1'' False False)\<lparr>req_mapPoolSize := 4\<rparr>) server0)) ''L''
       = Some ((demo_lobby ''bo1'' False [] [] 3)
                 \<lparr>members := [], teamNames := [],
                  rules := (rules (demo_lobby ''bo1'' False [] [] 3))
                     \<lparr>mapNames := Some [''m1'', ''m2'', ''m3'', ''m4''], admin := False,
                      mapPoolSize := 4\<rparr>\<rparr>)
   \<and> gameStep ((demo_lobby ''bo1'' False [] [] 3)
                 \<lparr>members := [], teamNames := [],
                  rules := (rules (demo_lobby ''bo1'' False [] [] 3))
                     \<lparr>mapNames := Some [''m1'', ''m2'', ''m3'', ''m4''], admin := False,
                      mapPoolSize := 4\<rparr>\<rparr>) = 7 - 4"
proof -
  let ?d = "(fps_req ''bo1'' False False)\<lparr>req_mapPoolSize := 4\<rparr>"
  let ?l = "(demo_lobby ''bo1'' False [] [] 3)
                 \<lparr>members := [], teamNames := [],
                  rules := (rules (demo_lobby ''bo1'' False [] [] 3))
                     \<lparr>mapNames := Some [''m1'', ''m2'', ''m3'', ''m4''], admin := False,
                      mapPoolSize := 4\<rparr>\<rparr>"
  have h1: "lobbies server0 (req_lobbyId ?d) = None" by (simp add: ev_defs)
  have h2: "req_mapPoolSize ?d \<in> {4, 7}" by simp
  have h3: "lobbies (state (createFPSLobby spec_env ''adm'' ?d server0)) (req_lobbyId ?d) = Some ?l"
    by (simp add: ev_defs)
  show ?thesis
    using h1 h2 h3 createFPSLobby_initial_gameStep[OF h1 h2 h3] by (simp add: fps_req_def)
qed

text \<open>
  C4. A \<^verbatim>\<open>createFPSLobby\<close> request whose lobby id is already in the store leaves the
  server state, and so the store and the lobby in it, as it was.
\<close>

theorem createFPSLobby_existing_id:
  assumes "lobbies s (req_lobbyId d) = Some l"
  shows "state (createFPSLobby env sid d s) = s
       \<and> lobbies (state (createFPSLobby env sid d s)) (req_lobbyId d) = Some l"
  using assms by (simp add: createFPSLobby_def)

text \<open>C4, replaying the request that created the lobby of \<open>bo1_state\<close>.\<close>

theorem createFPSLobby_existing_id_witness:
  "lobbies bo1_state (req_lobbyId (fps_req ''bo1'' False True))
     = Some (demo_lobby ''bo1'' False [] [] 0)
   \<and> state (createFPSLobby spec_env ''adm'' (fps_req ''bo1'' False True) bo1_state) = bo1_state"
proof -
  have h: "lobbies bo1_state (req_lobbyId (fps_req ''bo1'' False True))
             = Some (demo_lobby ''bo1'' False [] [] 0)"
    by (simp add: ev_defs)
  show ?thesis
    using h createFPSLobby_existing_id[OF h, of spec_env "''adm''"] by simp
qed

text \<open>
  C5. A \<^verbatim>\<open>createFPSLobby\<close> request of game type bo3 or bo5 whose map pool size is not 7
  emits one event, \<^verbatim>\<open>lobbyCreationError\<close>, addressed to the requesting connection, and
  leaves the server state as it was: no lobby is created.
\<close>

theorem createFPSLobby_rule_violation:
  assumes "req_gameType d = ''bo3'' \<or> req_gameType d = ''bo5''"
    and "req_mapPoolSize d \<noteq> 7"
  shows "createFPSLobby env sid d s =
           Outcome s [Emit (Room sid) ''lobbyCreationError'' (PMsg MsgPoolSizeMustBe7)] False"
  using assms by (simp add: createFPSLobby_def)

text \<open>C5, at a BO3 request with a pool of four maps on the server without lobbies.\<close>

theorem createFPSLobby_rule_violation_witness:
  "(req_gameType ((fps_req ''bo3'' True False)\<lparr>req_mapPoolSize := 4\<rparr>) = ''bo3''
      \<or> req_gameType ((fps_req ''bo3'' True False)\<lparr>req_mapPoolSize := 4\<rparr>) = ''bo5'')
   \<and> req_mapPoolSize ((fps_req ''bo3'' True False)\<lparr>req_mapPoolSize := 4\<rparr>) \<noteq> 7
   \<and> createFPSLobby spec_env ''adm'' ((fps_req ''bo3'' True False)\<lparr>req_mapPoolSize := 4\<rparr>) server0
       = Outcome server0
           [Emit (Room ''adm'') ''lobbyCreationError'' (PMsg MsgPoolSizeMustBe7)] False"
proof -
  let ?d = "(fps_req ''bo3'' True False)\<lparr>req_mapPoolSize := 4\<rparr>"
  have h1: "req_gameType ?d = ''bo3'' \<or> req_gameType ?d = ''bo5''" by (simp add: fps_req_def)
  have h2: "req_mapPoolSize ?d \<noteq> 7" by simp
  show ?thesis
    using h1 h2 createFPSLobby_rule_violation[OF h1 h2, of spec_env "''adm''" server0] by simp
qed

section \<open>Joining\<close>

text \<open>
  C10. \<^verbatim>\<open>joinLobby\<close> for a lobby id that is not in the store, with any role: the socket
  has joined the room of that id before the check, the only event is \<^verbatim>\<open>lobbyUndefined\<close>
  to the requester, the id is not added to the socket's set of lobbies, and the store is
  unchanged.
\<close>

theorem joinLobby_unknown_lobby:
  assumes "lobbies s lid = None"
  shows "emits (joinLobby sid lid role s) = [Emit (Room sid) ''lobbyUndefined'' (PStr lid)]
       \<and> lid \<in> rooms (sockets (state (joinLobby sid lid role s)) sid)
       \<and> data_lobbies (sockets (state (joinLobby sid lid role s)) sid)
           = data_lobbies (sockets s sid)
       \<and> lobbies (state (joinLobby sid lid role s)) = lobbies s"
  using assms by (auto simp: joinLobby_def socket_join_def Let_def)

text \<open>C10, for a connection that asks for the unknown lobby \<open>nowhere\<close> of \<open>bo1_state\<close>.\<close>

theorem joinLobby_unknown_lobby_witness:
  "lobbies bo1_state ''nowhere'' = None
   \<and> emits (joinLobby ''z'' ''nowhere'' Member bo1_state)
       = [Emit (Room ''z'') ''lobbyUndefined'' (PStr ''nowhere'')]
   \<and> ''nowhere'' \<in> rooms (sockets (state (joinLobby ''z'' ''nowhere'' Member bo1_state)) ''z'')
   \<and> data_lobbies (sockets (state (joinLobby ''z'' ''nowhere'' Member bo1_state)) ''z'') = []
   \<and> lobbies (state (joinLobby ''z'' ''nowhere'' Member bo1_state)) = lobbies bo1_state"
proof -
  have h: "lobbies bo1_state ''nowhere'' = None" by (simp add: ev_defs)
  have d: "data_lobbies (sockets bo1_state ''z'') = []" by (simp add: ev_defs)
  show ?thesis
    using h d joinLobby_unknown_lobby[OF h, of "''z''" Member] by simp
qed

text \<open>
  C2. As stated the claim fails: nothing caps \<^verbatim>\<open>members\<close> or \<^verbatim>\<open>teamNames\<close>. After
  three connections have joined the lobby \<open>L\<close> as members and named their teams, the
  lobby has three members and three team names.
\<close>

theorem three_members_counterexample:
  "map_option members (lobbies three_teams_state ''L'') = Some [''a'', ''b'', ''c'']
   \<and> map_option (map fst \<circ> teamNames) (lobbies three_teams_state ''L'')
       = Some [''a'', ''b'', ''c'']
   \<and> \<not> length [''a'', ''b'', ''c''] \<le> 2"
  by (simp add: ev_defs)

text \<open>
  C2, amended. On an existing lobby, \<^verbatim>\<open>joinLobby\<close> with role member adds the sender to
  \<^verbatim>\<open>members\<close> and \<^verbatim>\<open>lobby.teamName\<close> binds the sender in \<^verbatim>\<open>teamNames\<close>, whatever the
  sizes are: a connection that is not yet present makes the collection one longer, a
  present one leaves its length as it is. (For \<^verbatim>\<open>lobby.teamName\<close> this is the state
  when the handler does not go on to start the game: an admin lobby, or a number of team
  names other than two after the binding.)
\<close>

theorem members_teamNames_unbounded:
  assumes "lobbies s lid = Some l"
  shows "(\<exists>l'. lobbies (state (joinLobby sid lid Member s)) lid = Some l'
             \<and> members l' = set_add sid (members l)
             \<and> length (members l') =
                 (if sid \<in> set (members l) then length (members l) else length (members l) + 1))
       \<and> (admin (rules l) \<or> length (map_set sid (sanitizeInput env n) (teamNames l)) \<noteq> 2
            \<longrightarrow> (\<exists>l'. lobbies (state (lobby_teamName env sid lid n s)) lid = Some l'
                   \<and> map fst (teamNames l') = set_add sid (map fst (teamNames l))
                   \<and> length (teamNames l') =
                       (if sid \<in> fst ` set (teamNames l) then length (teamNames l)
                        else length (teamNames l) + 1)))"
proof -
  let ?tn = "map_set sid (sanitizeInput env n) (teamNames l)"
  have keys: "map fst ?tn = set_add sid (map fst (teamNames l))"
    by (rule map_set_keys)
  have "length (map fst ?tn) =
        (if sid \<in> fst ` set (teamNames l) then length (teamNames l) else length (teamNames l) + 1)"
    unfolding keys by (simp add: set_add_def)
  then have len: "length ?tn =
        (if sid \<in> fst ` set (teamNames l) then length (teamNames l) else length (teamNames l) + 1)"
    by simp
  have tn: "lobbies (state (lobby_teamName env sid lid n s)) lid = Some (l\<lparr>teamNames := ?tn\<rparr>)"
    if "admin (rules l) \<or> length ?tn \<noteq> 2"
    using assms that by (auto simp: lobby_teamName_def Let_def)
  have jn: "lobbies (state (joinLobby sid lid Member s)) lid =
              Some (l\<lparr>members := set_add sid (members l)\<rparr>)"
    using assms by (simp add: joinLobby_def socket_join_def Let_def)
  have mlen: "length (set_add sid (members l)) =
                 (if sid \<in> set (members l) then length (members l) else length (members l) + 1)"
    by (simp add: set_add_def)
  have part1: "\<exists>l'. lobbies (state (joinLobby sid lid Member s)) lid = Some l'
             \<and> members l' = set_add sid (members l)
             \<and> length (members l') =
                 (if sid \<in> set (members l) then length (members l) else length (members l) + 1)"
    unfolding jn using mlen by simp
  have part2: "\<exists>l'. lobbies (state (lobby_teamName env sid lid n s)) lid = Some l'
                   \<and> map fst (teamNames l') = set_add sid (map fst (teamNames l))
                   \<and> length (teamNames l') =
                       (if sid \<in> fst ` set (teamNames l) then length (teamNames l)
                        else length (teamNames l) + 1)"
    if c: "admin (rules l) \<or> length ?tn \<noteq> 2"
    unfolding tn[OF c] using keys len by simp
  show ?thesis using part1 part2 by blast
qed

text \<open>C2, amended, for a third connection \<open>c\<close> on the lobby of \<open>bo1_state\<close>.\<close>

theorem members_teamNames_unbounded_witness:
  "lobbies bo1_state ''L'' = Some (demo_lobby ''bo1'' False [] [] 0)
   \<and> admin (rules (demo_lobby ''bo1'' False [] [] 0))
   \<and> map_option members (lobbies (state (joinLobby ''c'' ''L'' Member bo1_state)) ''L'')
       = Some [''a'', ''b'', ''c'']
   \<and> map_option (map fst \<circ> teamNames)
        (lobbies (state (lobby_teamName spec_env ''c'' ''L'' ''C'' bo1_state)) ''L'')
       = Some [''a'', ''b'', ''c'']"
proof -
  have h1: "lobbies bo1_state ''L'' = Some (demo_lobby ''bo1'' False [] [] 0)"
    by (simp add: ev_defs)
  have h2: "admin (rules (demo_lobby ''bo1'' False [] [] 0))
            \<or> length (map_set ''c'' (sanitizeInput spec_env ''C'')
                        (teamNames (demo_lobby ''bo1'' False [] [] 0))) \<noteq> 2"
    by (simp add: demo_lobby_def)
  show ?thesis
    using h1 h2 members_teamNames_unbounded[OF h1, of "''c''" spec_env "''C''"]
    by (auto simp: demo_lobby_def set_add_def)
qed

section \<open>Team actions\<close>

text \<open>
  C1. As stated the claim fails: the handlers of team actions check neither membership nor
  \<^verbatim>\<open>teamNames\<close>, and the server keeps no record of who holds a capability. In
  \<open>bo1_state\<close> the lobby \<open>L\<close> has the members \<open>a\<close> and \<open>b\<close>, no game has been started and
  no capability granted; a ban sent by the connection \<open>x\<close>, which never joined, is
  recorded and broadcast.
\<close>

theorem unauthorised_ban_counterexample:
  "map_option members (lobbies bo1_state ''L'') = Some [''a'', ''b'']
   \<and> map_option (map fst \<circ> teamNames) (lobbies bo1_state ''L'') = Some [''a'', ''b'']
   \<and> map_option bannedMaps (lobbies bo1_state ''L'') = Some []
   \<and> map_option gameStep (lobbies bo1_state ''L'') = Some 0
   \<and> map_option bannedMaps (lobbies (state (lobby_ban ''x'' ''L'' ''m1'' ''X'' bo1_state)) ''L'')
       = Some [FpsBan ''m1'' ''X'']
   \<and> map_option gameStep (lobbies (state (lobby_ban ''x'' ''L'' ''m1'' ''X'' bo1_state)) ''L'')
       = Some 1
   \<and> Emit (Room ''L'') ''bannedUpdated'' (PBanned [FpsBan ''m1'' ''X''])
       \<in> set (emits (lobby_ban ''x'' ''L'' ''m1'' ''X'' bo1_state))"
  by (simp add: ev_defs)

text \<open>
  C1, amended. A team action (ban, pick, mode ban, mode pick) is dropped silently, with
  the server state unchanged and nothing emitted, when its lobby id is not in the store.
  On an existing lobby a ban and a pick take effect whoever sends them: the ban appends
  its entry to \<^verbatim>\<open>bannedMaps\<close> and \<^verbatim>\<open>bannedUpdated\<close> goes to the lobby room, the pick
  makes \<^verbatim>\<open>pickedMaps\<close> longer and emits events, and \<^verbatim>\<open>gameStep\<close> grows as long as it
  is at least \<open>- 2 ^ 53\<close> and below \<open>2 ^ 53\<close>, where the increment of a double is exact.
\<close>

theorem unauthorised_team_action:
  assumes "lobbies s lid0 = None" and "lobbies s lid = Some l"
  shows "lobby_ban sid lid0 m t s = Outcome s [] False
       \<and> lobby_pick sid lid0 m t side s = Outcome s [] False
       \<and> lobby_modeBan env sid lid0 mode t s = Outcome s [] False
       \<and> lobby_modePick env sid lid0 mode t s = Outcome s [] False
       \<and> (\<exists>l'. lobbies (state (lobby_ban sid lid m t s)) lid = Some l'
              \<and> bannedMaps l' = bannedMaps l @
                   [if getGameCategory (gameName (rules l)) = ''splatoon''
                    then SplBan m t (roundNumber (rules l)) else FpsBan m t]
              \<and> (- (2 ^ 53) \<le> gameStep l \<and> gameStep l < 2 ^ 53 \<longrightarrow> gameStep l < gameStep l')
              \<and> Emit (Room lid) ''bannedUpdated'' (PBanned (bannedMaps l'))
                   \<in> set (emits (lobby_ban sid lid m t s)))
       \<and> (\<exists>l'. lobbies (state (lobby_pick sid lid m t side s)) lid = Some l'
              \<and> length (pickedMaps l) < length (pickedMaps l')
              \<and> (- (2 ^ 53) \<le> gameStep l \<and> gameStep l < 2 ^ 53 \<longrightarrow> gameStep l < gameStep l')
              \<and> emits (lobby_pick sid lid m t side s) \<noteq> [])"
proof -
  have dropped: "lobby_ban sid lid0 m t s = Outcome s [] False
       \<and> lobby_pick sid lid0 m t side s = Outcome s [] False
       \<and> lobby_modeBan env sid lid0 mode t s = Outcome s [] False
       \<and> lobby_modePick env sid lid0 mode t s = Outcome s [] False"
    using assms(1) by (simp add: lobby_ban_def lobby_pick_def lobby_modeBan_def lobby_modePick_def)
  have again: "x < js_inc (x + 1)" if "- (2 ^ 53) \<le> x" and "x + 1 < 7" and "0 \<le> x + 1" for x :: int
    using that by (simp add: js_inc_def js_number_def)
  have ban: "\<exists>l'. lobbies (state (lobby_ban sid lid m t s)) lid = Some l'
              \<and> bannedMaps l' = bannedMaps l @
                   [if getGameCategory (gameName (rules l)) = ''splatoon''
                    then SplBan m t (roundNumber (rules l)) else FpsBan m t]
              \<and> (- (2 ^ 53) \<le> gameStep l \<and> gameStep l < 2 ^ 53 \<longrightarrow> gameStep l < gameStep l')
              \<and> Emit (Room lid) ''bannedUpdated'' (PBanned (bannedMaps l'))
                   \<in> set (emits (lobby_ban sid lid m t s))"
    using assms(2)
    by (auto simp: lobby_ban_def Let_def ban_append_def ban_continue_def knife_decider_def
        js_inc_exact again dest: js_index_nonneg
        split: prod.splits option.splits if_splits)
  have pick: "\<exists>l'. lobbies (state (lobby_pick sid lid m t side s)) lid = Some l'
              \<and> length (pickedMaps l) < length (pickedMaps l')
              \<and> (- (2 ^ 53) \<le> gameStep l \<and> gameStep l < 2 ^ 53 \<longrightarrow> gameStep l < gameStep l')
              \<and> emits (lobby_pick sid lid m t side s) \<noteq> []"
    using assms(2)
    by (auto simp: lobby_pick_def Let_def pick_append_def pick_continue_def knife_decider_def
        js_inc_exact again dest: js_index_nonneg
        split: prod.splits option.splits if_splits)
  from dropped ban pick show ?thesis by blast
qed

text \<open>
  C1, amended, for the connection \<open>x\<close> on \<open>bo1_state\<close>: the unknown lobby \<open>nowhere\<close> and
  the lobby \<open>L\<close>.
\<close>

theorem unauthorised_team_action_witness:
  "lobbies bo1_state ''nowhere'' = None
   \<and> lobbies bo1_state ''L'' = Some (demo_lobby ''bo1'' False [] [] 0)
   \<and> lobby_ban ''x'' ''nowhere'' ''m1'' ''X'' bo1_state = Outcome bo1_state [] False
   \<and> lobby_pick ''x'' ''nowhere'' ''m1'' ''X'' ''t'' bo1_state = Outcome bo1_state [] False
   \<and> lobby_modeBan spec_env ''x'' ''nowhere'' ''zones'' ''X'' bo1_state
       = Outcome bo1_state [] False
   \<and> lobby_modePick spec_env ''x'' ''nowhere'' ''zones'' ''X'' bo1_state
       = Outcome bo1_state [] False
   \<and> lobby_ban ''x'' ''L'' ''m1'' ''X'' bo1_state \<noteq> Outcome bo1_state [] False
   \<and> lobby_pick ''x'' ''L'' ''m1'' ''X'' ''t'' bo1_state \<noteq> Outcome bo1_state [] False"
proof -
  have h0: "lobbies bo1_state ''nowhere'' = None" by (simp add: ev_defs)
  have h1: "lobbies bo1_state ''L'' = Some (demo_lobby ''bo1'' False [] [] 0)"
    by (simp add: ev_defs)
  note t = unauthorised_team_action[OF h0 h1, of "''x''" "''m1''" "''X''" "''t''" spec_env "''zones''"]
  have b: "lobby_ban ''x'' ''L'' ''m1'' ''X'' bo1_state \<noteq> Outcome bo1_state [] False"
  proof
    assume "lobby_ban ''x'' ''L'' ''m1'' ''X'' bo1_state = Outcome bo1_state [] False"
    with t show False by simp
  qed
  have p: "lobby_pick ''x'' ''L'' ''m1'' ''X'' ''t'' bo1_state \<noteq> Outcome bo1_state [] False"
  proof
    assume "lobby_pick ''x'' ''L'' ''m1'' ''X'' ''t'' bo1_state = Outcome bo1_state [] False"
    with t show False by simp
  qed
  show ?thesis using h0 h1 t b p by simp
qed

text \<open>
  C8. As stated the claim fails where it says that \<^verbatim>\<open>gameStep\<close> is incremented by one:
  when the token at the step after the pick is the decider of a lobby with
  \<^verbatim>\<open>knifeDecider\<close>, the same call of \<^verbatim>\<open>lobby.pick\<close> appends the decider entry too and
  increments \<^verbatim>\<open>gameStep\<close> a second time. In the BO3 lobby after ban, ban, pick, pick,
  ban, the pick sent by \<open>b\<close> for team \<open>B\<close> takes \<^verbatim>\<open>gameStep\<close> from 5 to 7 and appends
  two entries.
\<close>

theorem pick_before_decider_counterexample:
  "map_option teamNames (lobbies bo3_five_actions_state ''L'')
     = Some [(''a'', ''A''), (''b'', ''B'')]
   \<and> map_option (gameType \<circ> rules) (lobbies bo3_five_actions_state ''L'') = Some ''bo3''
   \<and> map_option gameStep (lobbies bo3_five_actions_state ''L'') = Some 5
   \<and> map_option pickedMaps (lobbies bo3_five_actions_state ''L'')
     = Some [FpsPick ''m3'' ''A'' ''t'' ''B'', FpsPick ''m4'' ''B'' ''ct'' ''A'']
   \<and> map_option gameStep
        (lobbies (state (lobby_pick ''b'' ''L'' ''m6'' ''B'' ''ct'' bo3_five_actions_state)) ''L'')
     = Some 7
   \<and> map_option pickedMaps
        (lobbies (state (lobby_pick ''b'' ''L'' ''m6'' ''B'' ''ct'' bo3_five_actions_state)) ''L'')
     = Some [FpsPick ''m3'' ''A'' ''t'' ''B'', FpsPick ''m4'' ''B'' ''ct'' ''A'',
             FpsPick ''m6'' ''A'' ''ct'' ''B'', FpsPick ''m7'' '''' ''DECIDER'' '''']"
  by (simp add: ev_defs)

text \<open>
  C8, amended. A pick in an FPS lobby with two named teams, sent by the connection bound
  to \<open>teamName\<close>, with \<^verbatim>\<open>gameStep\<close> at least \<open>- 2 ^ 53\<close> and below \<open>2 ^ 53\<close>: the pick
  appends to \<^verbatim>\<open>pickedMaps\<close> the entry whose \<^verbatim>\<open>sideTeamName\<close> is the sender's team and
  whose \<^verbatim>\<open>teamName\<close> is the team of the other member when the game type is not bo1 (BO3,
  BO5) and the sender's team in BO1, and increments \<^verbatim>\<open>gameStep\<close> by one. The same call
  then appends what the knife decider branch adds at the new step, and increments
  \<^verbatim>\<open>gameStep\<close> once more for it: that is at most one entry, the decider entry, and it is
  nothing unless \<^verbatim>\<open>knifeDecider\<close> is set and the token at the new step is the decider;
  then the pick's entry is the only one appended and \<^verbatim>\<open>gameStep\<close> has grown by exactly
  one.
\<close>

theorem fps_pick_entry:
  assumes "lobbies s lid = Some l"
    and "getGameCategory (gameName (rules l)) = ''fps''"
    and "teamNames l = [(sid, teamName), (other, otherName)]
         \<or> teamNames l = [(other, otherName), (sid, teamName)]"
    and "- (2 ^ 53) \<le> gameStep l" and "gameStep l < 2 ^ 53"
  shows "(let entry = FpsPick mapName
                        (if gameType (rules l) = ''bo1'' then teamName else otherName)
                        side teamName;
              rest = decider_entries
                       (l\<lparr>pickedMaps := pickedMaps l @ [entry], gameStep := gameStep l + 1\<rparr>)
          in lobbies (state (lobby_pick sid lid mapName teamName side s)) lid =
               Some (l\<lparr>pickedMaps := pickedMaps l @ entry # rest,
                       gameStep := gameStep l + 1 + int (length rest)\<rparr>)
             \<and> (rest = [] \<or> (\<exists>d. rest = [FpsPick d '''' ''DECIDER'' '''']))
             \<and> (\<not> (knifeDecider (rules l)
                     \<and> js_index (mapRulesList (rules l)) (gameStep l + 1) = Some ''decider'')
                  \<longrightarrow> rest = []))"
proof -
  let ?entry = "FpsPick mapName (if gameType (rules l) = ''bo1'' then teamName else otherName)
                  side teamName"
  let ?l1 = "l\<lparr>pickedMaps := pickedMaps l @ [?entry], gameStep := gameStep l + 1\<rparr>"
  let ?rest = "decider_entries ?l1"
  have l1: "pick_append mapName teamName side l = ?l1"
    using assms(2,3) js_inc_exact[OF assms(4,5)]
    by (auto simp: pick_append_def Let_def find_other_def)
  have shape: "?rest = [] \<or> (\<exists>d. ?rest = [FpsPick d '''' ''DECIDER'' ''''])"
    and none: "\<not> (knifeDecider (rules l)
                  \<and> js_index (mapRulesList (rules l)) (gameStep l + 1) = Some ''decider'')
               \<longrightarrow> ?rest = []"
    by (simp_all add: decider_entries_def split: option.splits)
  have cont: "fst (pick_continue lid sid teamName ?l1) =
                ?l1\<lparr>pickedMaps := pickedMaps ?l1 @ ?rest,
                    gameStep := gameStep ?l1 + int (length ?rest)\<rparr>"
  proof (cases "gameStep ?l1 < 7 \<and> getGameCategory (gameName (rules ?l1)) = ''fps''
                \<and> js_index (mapRulesList (rules ?l1)) (gameStep ?l1) = Some ''decider''
                \<and> knifeDecider (rules ?l1)")
    case True
    then have g0: "0 \<le> gameStep ?l1" by (auto dest: js_index_nonneg)
    from True have g7: "gameStep ?l1 < 7" by simp
    show ?thesis
      using True js_inc_step[OF g0 g7]
      by (auto simp: pick_continue_def knife_decider_def decider_entries_def Let_def
          split: option.splits)
  next
    case False
    then have "?rest = []" by (auto simp: decider_entries_def)
    moreover have "fst (pick_continue lid sid teamName ?l1) = ?l1"
      using False by (auto simp: pick_continue_def Let_def)
    ultimately show ?thesis by simp
  qed
  have out: "lobbies (state (lobby_pick sid lid mapName teamName side s)) lid =
               Some (fst (pick_continue lid sid teamName ?l1))"
    using assms(1) by (simp add: lobby_pick_def Let_def l1 split: prod.splits)
  have "lobbies (state (lobby_pick sid lid mapName teamName side s)) lid =
               Some (l\<lparr>pickedMaps := pickedMaps l @ ?entry # ?rest,
                       gameStep := gameStep l + 1 + int (length ?rest)\<rparr>)"
    unfolding out cont by simp
  with shape none show ?thesis unfolding Let_def by blast
qed

text \<open>
  C8, amended, in the BO3 lobby after two bans: team \<open>A\<close> chose the map \<open>m3\<close>, the
  connection \<open>b\<close> of team \<open>B\<close> chooses the side; the token at the new step is a pick.
\<close>

theorem fps_pick_entry_witness:
  "lobbies bo3_two_bans_state ''L''
     = Some (demo_lobby ''bo3'' True [] [FpsBan ''m1'' ''A'', FpsBan ''m2'' ''B''] 2)
   \<and> lobbies (state (lobby_pick ''b'' ''L'' ''m3'' ''B'' ''t'' bo3_two_bans_state)) ''L''
     = Some (demo_lobby ''bo3'' True [FpsPick ''m3'' ''A'' ''t'' ''B'']
               [FpsBan ''m1'' ''A'', FpsBan ''m2'' ''B''] 3)"
proof -
  let ?l = "demo_lobby ''bo3'' True [] [FpsBan ''m1'' ''A'', FpsBan ''m2'' ''B''] 2"
  have h1: "lobbies bo3_two_bans_state ''L'' = Some ?l" by (simp add: ev_defs)
  have h2: "getGameCategory (gameName (rules ?l)) = ''fps''"
    by (simp add: demo_lobby_def getGameCategory_def)
  have h3: "teamNames ?l = [(''b'', ''B''), (''a'', ''A'')]
            \<or> teamNames ?l = [(''a'', ''A''), (''b'', ''B'')]"
    by (simp add: demo_lobby_def)
  have h4: "- (2 ^ 53) \<le> gameStep ?l" and h5: "gameStep ?l < 2 ^ 53"
    by (simp_all add: demo_lobby_def)
  have h6: "\<not> (knifeDecider (rules ?l)
              \<and> js_index (mapRulesList (rules ?l)) (gameStep ?l + 1) = Some ''decider'')"
    by (simp add: demo_lobby_def spec_fps_mapRulesLists_def js_index_def)
  from fps_pick_entry[OF h1 h2 h3 h4 h5, of "''m3''" "''t''"] h6
  have "lobbies (state (lobby_pick ''b'' ''L'' ''m3'' ''B'' ''t'' bo3_two_bans_state)) ''L''
        = Some (?l\<lparr>pickedMaps := pickedMaps ?l @
                      [FpsPick ''m3'' (if gameType (rules ?l) = ''bo1'' then ''B'' else ''A'')
                         ''t'' ''B''],
                   gameStep := gameStep ?l + 1\<rparr>)"
    unfolding Let_def by auto
  then show ?thesis
    using h1 by (simp add: demo_lobby_def)
qed




text \<open>
  C7. As stated the claim fails: after a Splatoon map pick \<^verbatim>\<open>canReportWinner\<close> goes to
  the lobby room, and an observer is in the room. In \<open>splatoon_state\<close> the connection
  \<open>o\<close> observes the lobby \<open>S\<close> and is no member; after the pick of \<open>a\<close> it holds
  \<^verbatim>\<open>canReportWinner\<close>.
\<close>

theorem observer_reports_winner_counterexample:
  "map_option members (lobbies splatoon_state ''S'') = Some [''a'', ''b'']
   \<and> map_option observers (lobbies splatoon_state ''S'') = Some [''o'']
   \<and> Emit (Room ''S'') ''canReportWinner'' (PBool True)
       \<in> set (emits (lobby_pick ''a'' ''S'' ''museum'' ''A'' '''' splatoon_state))
   \<and> delivered (state (lobby_pick ''a'' ''S'' ''museum'' ''A'' '''' splatoon_state)) ''o'' (Room ''S'')
   \<and> granted (state (lobby_pick ''a'' ''S'' ''museum'' ''A'' '''' splatoon_state)) ''o''
       ''canReportWinner'' (emits (lobby_pick ''a'' ''S'' ''museum'' ''A'' '''' splatoon_state))"
  by (simp add: ev_defs)

text \<open>
  C7, amended. A map pick on a Splatoon lobby emits, in this order: to the lobby room
  \<^verbatim>\<open>canWorkUpdated\<close>, \<^verbatim>\<open>canBan\<close>, \<^verbatim>\<open>canPick\<close>, \<^verbatim>\<open>canModeBan\<close> and
  \<^verbatim>\<open>canModePick\<close> with the value false and \<^verbatim>\<open>canReportWinner\<close> with the value true,
  then \<^verbatim>\<open>endPick\<close> to the socket of the other team, and to the lobby room once more
  \<^verbatim>\<open>canWorkUpdated\<close> = false and \<^verbatim>\<open>pickedUpdated\<close>. A connection that receives the
  events of the lobby room receives exactly these capability values, and so ends with
  \<^verbatim>\<open>canReportWinner\<close> and none of the five; a connection that does not receive them
  receives no capability value. The connections that receive the events of the lobby room
  include every connection that has sent \<^verbatim>\<open>joinLobby\<close> for the lobby id, in whatever
  role, and has not disconnected since, no \<^verbatim>\<open>admin.delete\<close> of the lobby id having been
  handled in between (the history being one of the events of \<^typ>\<open>inbound\<close>): both
  members and every observer that joined.
\<close>

theorem splatoon_pick_capabilities:
  assumes "lobbies s lid = Some l" and "gameName (rules l) = ''splatoon''"
  shows "emits (lobby_pick sid lid m t side s) =
           [cap lid ''canWorkUpdated'' False, cap lid ''canBan'' False,
            cap lid ''canPick'' False, cap lid ''canModeBan'' False,
            cap lid ''canModePick'' False, cap lid ''canReportWinner'' True,
            Emit (Room (socketId_of (find_other t (teamNames l)))) ''endPick'' PNone,
            cap lid ''canWorkUpdated'' False,
            Emit (Room lid) ''pickedUpdated''
              (PPicked (pickedMaps l @ [SplPick m t (roundNumber (rules l))]))]
       \<and> (\<forall>c name. received (state (lobby_pick sid lid m t side s)) c name
                      (emits (lobby_pick sid lid m t side s))
             = (if delivered (state (lobby_pick sid lid m t side s)) c (Room lid)
                then (if name = ''canWorkUpdated'' then [False, False]
                      else if name = ''canBan'' \<or> name = ''canPick'' \<or> name = ''canModeBan''
                              \<or> name = ''canModePick'' then [False]
                      else if name = ''canReportWinner'' then [True]
                      else [])
                else []))
       \<and> (\<forall>c name. name \<in> set capabilities \<longrightarrow>
             granted (state (lobby_pick sid lid m t side s)) c name
                     (emits (lobby_pick sid lid m t side s))
             = (name = ''canReportWinner''
                \<and> delivered (state (lobby_pick sid lid m t side s)) c (Room lid)))
       \<and> (\<forall>c role s0 evs.
             s = run env evs (state (joinLobby c lid role s0))
             \<and> (c, Disconnect) \<notin> set evs \<and> AdminDelete lid \<notin> snd ` set evs
             \<longrightarrow> delivered (state (lobby_pick sid lid m t side s)) c (Room lid))"
proof -
  let ?out = "lobby_pick sid lid m t side s"
  have cat: "getGameCategory (gameName (rules l)) = ''splatoon''"
    using assms(2) by (simp add: getGameCategory_def)
  have es: "emits ?out =
           [cap lid ''canWorkUpdated'' False, cap lid ''canBan'' False,
            cap lid ''canPick'' False, cap lid ''canModeBan'' False,
            cap lid ''canModePick'' False, cap lid ''canReportWinner'' True,
            Emit (Room (socketId_of (find_other t (teamNames l)))) ''endPick'' PNone,
            cap lid ''canWorkUpdated'' False,
            Emit (Room lid) ''pickedUpdated''
              (PPicked (pickedMaps l @ [SplPick m t (roundNumber (rules l))]))]"
    using assms(1) cat
    by (simp add: lobby_pick_def pick_append_def pick_append_emits_def pick_continue_def Let_def)
  have rooms_kept: "rooms (sockets (state ?out) c) = rooms (sockets s c)" for c
    using assms(1) by (simp add: lobby_pick_def Let_def split: prod.splits)
  have rc: "received (state ?out) c name (emits ?out)
             = (if delivered (state ?out) c (Room lid)
                then (if name = ''canWorkUpdated'' then [False, False]
                      else if name = ''canBan'' \<or> name = ''canPick'' \<or> name = ''canModeBan''
                              \<or> name = ''canModePick'' then [False]
                      else if name = ''canReportWinner'' then [True]
                      else [])
                else [])" for c name
    unfolding es by (simp add: received_def cap_def)
  have gr: "granted (state ?out) c name (emits ?out)
             = (name = ''canReportWinner'' \<and> delivered (state ?out) c (Room lid))"
    if "name \<in> set capabilities" for c name
  proof -
    have "granted (state ?out) c name (emits ?out)
            = (case received (state ?out) c name (emits ?out) of
                 [] \<Rightarrow> False | v # vs \<Rightarrow> last (v # vs))"
      by (simp only: granted_def received_def)
    then show ?thesis unfolding rc by simp
  qed
  have joined: "delivered (state ?out) c (Room lid)"
    if "s = run env evs (state (joinLobby c lid role s0))" and "(c, Disconnect) \<notin> set evs"
      and "AdminDelete lid \<notin> snd ` set evs"
    for c role s0 evs
  proof -
    have "lid \<in> rooms (sockets s c)"
      unfolding that(1) by (rule run_rooms[OF that(2,3) joinLobby_rooms])
    then show ?thesis by (simp add: delivered_def rooms_kept)
  qed
  from es rc gr joined show ?thesis by blast
qed

text \<open>
  C7, amended, for the member \<open>b\<close> after the pick of \<open>a\<close> in \<open>splatoon_state\<close>, which is
  the state reached from the \<^verbatim>\<open>joinLobby\<close> of \<open>b\<close> by the \<^verbatim>\<open>joinLobby\<close> of \<open>o\<close>.
\<close>

theorem splatoon_pick_capabilities_witness:
  "map_option (gameName \<circ> rules) (lobbies splatoon_state ''S'') = Some ''splatoon''
   \<and> splatoon_state =
       run spec_env [(''o'', JoinLobby ''S'' Observer)]
         (state (joinLobby ''b'' ''S'' Member
            (run spec_env [(''adm'', CreateSplatoonLobby splatoon_req),
                           (''a'', JoinLobby ''S'' Member)] server0)))
   \<and> (''b'', Disconnect) \<notin> set [(''o'', JoinLobby ''S'' Observer)]
   \<and> AdminDelete ''S'' \<notin> snd ` set [(''o'', JoinLobby ''S'' Observer)]
   \<and> ''canReportWinner'' \<in> set capabilities \<and> ''canPick'' \<in> set capabilities
   \<and> delivered (state (lobby_pick ''a'' ''S'' ''museum'' ''A'' '''' splatoon_state)) ''b''
       (Room ''S'')
   \<and> received (state (lobby_pick ''a'' ''S'' ''museum'' ''A'' '''' splatoon_state)) ''b''
       ''canPick'' (emits (lobby_pick ''a'' ''S'' ''museum'' ''A'' '''' splatoon_state)) = [False]
   \<and> granted (state (lobby_pick ''a'' ''S'' ''museum'' ''A'' '''' splatoon_state)) ''b''
       ''canReportWinner'' (emits (lobby_pick ''a'' ''S'' ''museum'' ''A'' '''' splatoon_state))
   \<and> \<not> granted (state (lobby_pick ''a'' ''S'' ''museum'' ''A'' '''' splatoon_state)) ''b''
       ''canPick'' (emits (lobby_pick ''a'' ''S'' ''museum'' ''A'' '''' splatoon_state))"
proof -
  let ?out = "lobby_pick ''a'' ''S'' ''museum'' ''A'' '''' splatoon_state"
  obtain l where h1: "lobbies splatoon_state ''S'' = Some l"
    and h2: "gameName (rules l) = ''splatoon''"
    by (simp add: ev_defs)
  have c1: "''canReportWinner'' \<in> set capabilities" and c2: "''canPick'' \<in> set capabilities"
    by (simp_all add: capabilities_def)
  have hist: "splatoon_state =
       run spec_env [(''o'', JoinLobby ''S'' Observer)]
         (state (joinLobby ''b'' ''S'' Member
            (run spec_env [(''adm'', CreateSplatoonLobby splatoon_req),
                           (''a'', JoinLobby ''S'' Member)] server0)))"
    by (simp add: splatoon_state_def)
  have nd: "(''b'', Disconnect) \<notin> set [(''o'', JoinLobby ''S'' Observer)]" by simp
  have na: "AdminDelete ''S'' \<notin> snd ` set [(''o'', JoinLobby ''S'' Observer)]" by simp
  note t = splatoon_pick_capabilities[OF h1 h2, of "''a''" "''museum''" "''A''" "''''" spec_env]
  note t2 = t[THEN conjunct2, THEN conjunct1, rule_format]
  note t3 = t[THEN conjunct2, THEN conjunct2, THEN conjunct1, rule_format]
  note t4 = t[THEN conjunct2, THEN conjunct2, THEN conjunct2, rule_format]
  have d: "delivered (state ?out) ''b'' (Room ''S'')"
    by (rule t4) (rule conjI[OF hist conjI[OF nd na]])
  have r: "received (state ?out) ''b'' ''canPick'' (emits ?out) = [False]"
    using t2[of "''b''" "''canPick''"] d by simp
  have g1: "granted (state ?out) ''b'' ''canReportWinner'' (emits ?out)"
    using t3[OF c1, of "''b''"] d by simp
  have g2: "\<not> granted (state ?out) ''b'' ''canPick'' (emits ?out)"
    using t3[OF c2, of "''b''"] by simp
  from h1 h2 hist nd na c1 c2 d r g1 g2 show ?thesis by simp
qed

section \<open>Disconnection\<close>

text \<open>
  C6. The claim holds for \<^verbatim>\<open>members\<close> and \<^verbatim>\<open>teamNames\<close> and fails for
  \<^verbatim>\<open>observers\<close>: the handler, whose comment says that it removes the socket id from all
  lobbies the socket was in, never deletes from \<^verbatim>\<open>observers\<close>. In \<open>observed_state\<close> the
  connection \<open>o\<close> observes the lobby \<open>L\<close>, which has the member \<open>a\<close>; after \<open>o\<close> has
  disconnected the lobby is still there and \<open>o\<close> is still among its observers.
\<close>

theorem disconnect_keeps_observer:
  "map_option observers (lobbies observed_state ''L'') = Some [''o'']
   \<and> data_lobbies (sockets observed_state ''o'') = [''L'']
   \<and> map_option observers (lobbies (state (disconnect ''o'' observed_state)) ''L'') = Some [''o'']
   \<and> map_option members (lobbies (state (disconnect ''o'' observed_state)) ''L'') = Some [''a'']
   \<and> emits (disconnect ''o'' observed_state)
       = [Emit (Room ''L'') ''teamNamesUpdated'' (PTeams []),
          Emit (Room ''L'') ''teamNamesUpdated'' (PTeams [])]"
proof -
  have before: "map_option observers (lobbies observed_state ''L'') = Some [''o'']"
    by (simp add: ev_defs)
  have joined: "data_lobbies (sockets observed_state ''o'') = [''L'']"
    by (simp add: ev_defs)
  have kept: "map_option members (lobbies (state (disconnect ''o'' observed_state)) ''L'')
                = Some [''a'']"
    by (simp add: ev_defs)
  then obtain l' where after: "lobbies (state (disconnect ''o'' observed_state)) ''L'' = Some l'"
    by (cases "lobbies (state (disconnect ''o'' observed_state)) ''L''") auto
  from disconnect_observers_unchanged[OF after] before
  have "observers l' = [''o'']" by auto
  with after have stale:
    "map_option observers (lobbies (state (disconnect ''o'' observed_state)) ''L'') = Some [''o'']"
    by simp
  have sent: "emits (disconnect ''o'' observed_state)
       = [Emit (Room ''L'') ''teamNamesUpdated'' (PTeams []),
          Emit (Room ''L'') ''teamNamesUpdated'' (PTeams [])]"
    by (simp add: ev_defs)
  from before joined stale kept sent show ?thesis by simp
qed


end
